theory Spec2Isabelle
  imports Main "HOL-Library.Word"
begin

section \<open>The driver shell of the hypervisor debugger (Driver.c)\<close>

text \<open>
  Driver.c holds the IRP handlers of the device: \<open>DrvCreate\<close>, \<open>DrvRead\<close>,
  \<open>DrvWrite\<close>, \<open>DrvClose\<close>, \<open>DrvUnsupported\<close> and \<open>DrvDispatchIoControl\<close>.
  They share three globals, \<open>g_HandleInUse\<close>, \<open>g_AllowIOCTLFromUsermode\<close> and
  \<open>g_GuestState\<close>, and call into the hypervisor, the debugger, the logger and the pool
  manager, whose code lives in other files. The model passes the globals explicitly,
  takes the collaborators as parameters, and records every call that leaves Driver.c
  in a trace, in the order the C code makes them.
\<close>

subsection \<open>NTSTATUS values\<close>

text \<open>NTSTATUS is a 32-bit value; the constants are those of the Windows headers.\<close>

type_synonym ntstatus = "32 word"

definition STATUS_SUCCESS :: ntstatus where
  "STATUS_SUCCESS = 0x00000000"

definition STATUS_PENDING :: ntstatus where
  "STATUS_PENDING = 0x00000103"

definition STATUS_UNSUCCESSFUL :: ntstatus where
  "STATUS_UNSUCCESSFUL = 0xC0000001"

definition STATUS_NOT_IMPLEMENTED :: ntstatus where
  "STATUS_NOT_IMPLEMENTED = 0xC0000002"

definition STATUS_INVALID_PARAMETER :: ntstatus where
  "STATUS_INVALID_PARAMETER = 0xC000000D"

definition STATUS_INVALID_DEVICE_REQUEST :: ntstatus where
  "STATUS_INVALID_DEVICE_REQUEST = 0xC0000010"

definition STATUS_ACCESS_DENIED :: ntstatus where
  "STATUS_ACCESS_DENIED = 0xC0000022"

subsection \<open>The I/O request packet\<close>

datatype kprocessor_mode = KernelMode | UserMode

text \<open>
  The control codes are macros of a header that is not part of Driver.c. The \<open>switch\<close>
  of the dispatcher tells three of them apart from each other and from every other
  code, which is what the datatype records; \<open>IOCTL_OTHER\<close> carries the raw code of a
  request the \<open>switch\<close> sends to \<open>default\<close>.
\<close>

datatype ioctl_code =
    IOCTL_REGISTER_EVENT
  | IOCTL_RETURN_IRP_PENDING_PACKETS_AND_DISALLOW_IOCTL
  | IOCTL_TERMINATE_VMX
  | IOCTL_OTHER "32 word"

text \<open>
  \<open>RegisterEvent->Type\<close> is read from the user's buffer, so it may hold a value that is
  neither \<open>IRP_BASED\<close> nor \<open>EVENT_BASED\<close>.
\<close>

datatype notify_type = IRP_BASED | EVENT_BASED | NOTIFY_OTHER "32 word"

record register_notify_buffer =
  Type :: notify_type

text \<open>
  The fields of the IRP and of its current stack location that the handlers read or
  write. \<open>SystemBuffer = None\<close> is the NULL pointer. \<open>Completed\<close> counts the calls of
  \<open>IoCompleteRequest\<close> on the packet.
\<close>

record irp =
  RequestorMode :: kprocessor_mode
  IoStatus_Status :: ntstatus
  IoStatus_Information :: "64 word"
  IoControlCode :: ioctl_code
  InputBufferLength :: nat
  SystemBuffer :: "register_notify_buffer option"
  Completed :: nat

subsection \<open>Calls that leave Driver.c\<close>

datatype log_kind = LogInfo | LogWarning | LogError | LogInfoImmediate

type_synonym byte = "8 word"

text \<open>
  One event per call, with the value the call returned where it returns one.
  \<open>E_RtlZeroMemory\<close> carries the number of bytes it is asked to clear, and
  \<open>E_HvVmxInitialize\<close> also carries \<open>g_GuestState\<close> as it is when the call is made.
\<close>

datatype event =
    E_SeSinglePrivilegeCheck bool
  | E_KeQueryActiveProcessorCount "32 word"
  | E_RtlZeroMemory nat
  | E_HvVmxInitialize "byte list" bool
  | E_DebuggerInitialize bool
  | E_Log log_kind
  | E_PoolManagerCheckAndPerformAllocation
  | E_IoGetCurrentIrpStackLocation
  | E_LogRegisterIrpBasedNotification ntstatus
  | E_LogRegisterEventBasedNotification ntstatus
  | E_HvTerminateVmx
  | E_IoCompleteRequest ntstatus

subsection \<open>The globals and the collaborators\<close>

text \<open>
  \<open>g_GuestState\<close> points to a pool allocation that holds the array of
  \<open>VIRTUAL_MACHINE_STATE\<close>, one element per processor. The struct is declared
  elsewhere, so the array is kept as the bytes of the allocation: the element of
  processor \<open>i\<close> is the bytes from \<open>i * sizeof(VIRTUAL_MACHINE_STATE)\<close> on.
  \<open>pool_overrun\<close> becomes true when a write goes past the end of the allocation; the
  C program has no defined behaviour from then on. \<open>collaborators\<close> is the state of
  the hypervisor, the debugger, the logger and the pool manager, of a type \<open>'h\<close> the
  driver shell never looks into.
\<close>

record 'h driver_state =
  g_HandleInUse :: bool
  g_AllowIOCTLFromUsermode :: bool
  g_GuestState :: "byte list"
  pool_overrun :: bool
  collaborators :: 'h
  trace :: "event list"

text \<open>
  What the handlers call. A collaborator works on \<open>g_GuestState\<close> and on its own state
  and returns both; the two flags \<open>g_HandleInUse\<close> and \<open>g_AllowIOCTLFromUsermode\<close> are
  written by Driver.c only, so no collaborator is given them.
  \<open>KeQueryActiveProcessorCount\<close> returns a \<open>ULONG\<close>. \<open>SIZEOF_VIRTUAL_MACHINE_STATE\<close>
  is \<open>sizeof(VIRTUAL_MACHINE_STATE)\<close>, a \<open>size_t\<close> of 64 bits, and
  \<open>SIZEOF_REGISTER_EVENT\<close> is a macro; both come from headers outside Driver.c.
\<close>

record 'h kernel_env =
  SeSinglePrivilegeCheck :: "kprocessor_mode \<Rightarrow> bool"
  KeQueryActiveProcessorCount :: "32 word"
  SIZEOF_VIRTUAL_MACHINE_STATE :: "64 word"
  SIZEOF_REGISTER_EVENT :: nat
  Log :: "log_kind \<Rightarrow> byte list \<times> 'h \<Rightarrow> byte list \<times> 'h"
  HvVmxInitialize :: "byte list \<times> 'h \<Rightarrow> bool \<times> byte list \<times> 'h"
  DebuggerInitialize :: "byte list \<times> 'h \<Rightarrow> bool \<times> byte list \<times> 'h"
  PoolManagerCheckAndPerformAllocation :: "byte list \<times> 'h \<Rightarrow> byte list \<times> 'h"
  HvTerminateVmx :: "byte list \<times> 'h \<Rightarrow> byte list \<times> 'h"
  LogRegisterIrpBasedNotification ::
    "irp \<Rightarrow> byte list \<times> 'h \<Rightarrow> ntstatus \<times> irp \<times> byte list \<times> 'h"
  LogRegisterEventBasedNotification ::
    "irp \<Rightarrow> byte list \<times> 'h \<Rightarrow> ntstatus \<times> irp \<times> byte list \<times> 'h"

definition emit :: "event \<Rightarrow> 'h driver_state \<Rightarrow> 'h driver_state" where
  "emit e s = s\<lparr>trace := trace s @ [e]\<rparr>"

definition world :: "'h driver_state \<Rightarrow> byte list \<times> 'h" where
  "world s = (g_GuestState s, collaborators s)"

definition set_world ::
  "byte list \<times> 'h \<Rightarrow> 'h driver_state \<Rightarrow> 'h driver_state" where
  "set_world w s = s\<lparr>g_GuestState := fst w, collaborators := snd w\<rparr>"

definition call_Log ::
  "'h kernel_env \<Rightarrow> log_kind \<Rightarrow> 'h driver_state \<Rightarrow> 'h driver_state" where
  "call_Log env k s = emit (E_Log k) (set_world (Log env k (world s)) s)"

definition call_HvVmxInitialize ::
  "'h kernel_env \<Rightarrow> 'h driver_state \<Rightarrow> bool \<times> 'h driver_state" where
  "call_HvVmxInitialize env s =
     (let (ok, w) = HvVmxInitialize env (world s)
      in (ok, emit (E_HvVmxInitialize (g_GuestState s) ok) (set_world w s)))"

definition call_DebuggerInitialize ::
  "'h kernel_env \<Rightarrow> 'h driver_state \<Rightarrow> bool \<times> 'h driver_state" where
  "call_DebuggerInitialize env s =
     (let (ok, w) = DebuggerInitialize env (world s)
      in (ok, emit (E_DebuggerInitialize ok) (set_world w s)))"

definition call_PoolManagerCheckAndPerformAllocation ::
  "'h kernel_env \<Rightarrow> 'h driver_state \<Rightarrow> 'h driver_state" where
  "call_PoolManagerCheckAndPerformAllocation env s =
     emit E_PoolManagerCheckAndPerformAllocation
       (set_world (PoolManagerCheckAndPerformAllocation env (world s)) s)"

definition call_HvTerminateVmx ::
  "'h kernel_env \<Rightarrow> 'h driver_state \<Rightarrow> 'h driver_state" where
  "call_HvTerminateVmx env s = emit E_HvTerminateVmx (set_world (HvTerminateVmx env (world s)) s)"

definition call_LogRegisterIrpBasedNotification ::
  "'h kernel_env \<Rightarrow> 'h driver_state \<Rightarrow> irp
     \<Rightarrow> ntstatus \<times> irp \<times> 'h driver_state" where
  "call_LogRegisterIrpBasedNotification env s Irp =
     (let (st, Irp', w) = LogRegisterIrpBasedNotification env Irp (world s)
      in (st, Irp', emit (E_LogRegisterIrpBasedNotification st) (set_world w s)))"

definition call_LogRegisterEventBasedNotification ::
  "'h kernel_env \<Rightarrow> 'h driver_state \<Rightarrow> irp
     \<Rightarrow> ntstatus \<times> irp \<times> 'h driver_state" where
  "call_LogRegisterEventBasedNotification env s Irp =
     (let (st, Irp', w) = LogRegisterEventBasedNotification env Irp (world s)
      in (st, Irp', emit (E_LogRegisterEventBasedNotification st) (set_world w s)))"

text \<open>
  \<open>sizeof(VIRTUAL_MACHINE_STATE) * ProcessorCount\<close>: the count is a \<open>ULONG\<close> that
  \<open>DrvCreate\<close> stores in an \<open>int\<close>, the \<open>int\<close> is converted to \<open>size_t\<close> with its sign,
  and the product is taken modulo \<open>2^64\<close>.
\<close>

definition size_in_bytes :: "64 word \<Rightarrow> 32 word \<Rightarrow> nat" where
  "size_in_bytes sz ProcessorCount = unat (sz * (scast ProcessorCount :: 64 word))"

text \<open>
  \<open>RtlZeroMemory(mem, len)\<close> clears \<open>len\<close> bytes from the start of \<open>mem\<close>. The list
  \<open>mem\<close> is the allocation: the bytes of it that lie in the range are cleared here,
  and \<open>call_RtlZeroMemory\<close> sets \<open>pool_overrun\<close> when the range ends beyond it, where
  the C code writes into whatever follows the allocation.
\<close>

definition RtlZeroMemory :: "byte list \<Rightarrow> nat \<Rightarrow> byte list" where
  "RtlZeroMemory mem len = replicate (min len (length mem)) 0 @ drop len mem"

definition call_RtlZeroMemory :: "nat \<Rightarrow> 'h driver_state \<Rightarrow> 'h driver_state" where
  "call_RtlZeroMemory len s =
     emit (E_RtlZeroMemory len)
       (s\<lparr>g_GuestState := RtlZeroMemory (g_GuestState s) len,
          pool_overrun := pool_overrun s \<or> length (g_GuestState s) < len\<rparr>)"

text \<open>
  The three lines that end every handler: set \<open>Irp->IoStatus\<close>, call
  \<open>IoCompleteRequest\<close>, return the status.
\<close>

definition complete ::
  "ntstatus \<Rightarrow> 'h driver_state \<Rightarrow> irp \<Rightarrow> ntstatus \<times> irp \<times> 'h driver_state" where
  "complete st s Irp =
     (st,
      Irp\<lparr>IoStatus_Status := st, IoStatus_Information := 0, Completed := Suc (Completed Irp)\<rparr>,
      emit (E_IoCompleteRequest st) s)"

subsection \<open>The handlers\<close>

definition DrvCreate ::
  "'h kernel_env \<Rightarrow> 'h driver_state \<Rightarrow> irp
     \<Rightarrow> ntstatus \<times> irp \<times> 'h driver_state" where
  "DrvCreate env s Irp =
     (let priv = SeSinglePrivilegeCheck env (RequestorMode Irp);
          s0 = emit (E_SeSinglePrivilegeCheck priv) s
      in if \<not> priv then complete STATUS_ACCESS_DENIED s0 Irp
         else if g_HandleInUse s0 then complete STATUS_UNSUCCESSFUL s0 Irp
         else
           let s1 = s0\<lparr>g_AllowIOCTLFromUsermode := True\<rparr>;
               s2 = call_Log env LogInfo s1;
               ProcessorCount = KeQueryActiveProcessorCount env;
               s3 = emit (E_KeQueryActiveProcessorCount ProcessorCount) s2;
               s4 = call_RtlZeroMemory
                      (size_in_bytes (SIZEOF_VIRTUAL_MACHINE_STATE env) ProcessorCount) s3;
               (hv, s5) = call_HvVmxInitialize env s4
           in if hv then
                let s6 = call_Log env LogInfo s5;
                    (dbg, s7) = call_DebuggerInitialize env s6
                in if dbg then
                     let s8 = call_Log env LogInfo s7;
                         s9 = s8\<lparr>g_HandleInUse := True\<rparr>
                     in complete STATUS_SUCCESS s9 Irp
                   else complete STATUS_UNSUCCESSFUL (call_Log env LogError s7) Irp
              else complete STATUS_UNSUCCESSFUL (call_Log env LogError s5) Irp)"

definition DrvRead ::
  "'h kernel_env \<Rightarrow> 'h driver_state \<Rightarrow> irp
     \<Rightarrow> ntstatus \<times> irp \<times> 'h driver_state" where
  "DrvRead env s Irp = complete STATUS_SUCCESS (call_Log env LogWarning s) Irp"

definition DrvWrite ::
  "'h kernel_env \<Rightarrow> 'h driver_state \<Rightarrow> irp
     \<Rightarrow> ntstatus \<times> irp \<times> 'h driver_state" where
  "DrvWrite env s Irp = complete STATUS_SUCCESS (call_Log env LogWarning s) Irp"

definition DrvClose ::
  "'h driver_state \<Rightarrow> irp \<Rightarrow> ntstatus \<times> irp \<times> 'h driver_state" where
  "DrvClose s Irp = complete STATUS_SUCCESS (s\<lparr>g_HandleInUse := False\<rparr>) Irp"

definition DrvUnsupported ::
  "'h kernel_env \<Rightarrow> 'h driver_state \<Rightarrow> irp
     \<Rightarrow> ntstatus \<times> irp \<times> 'h driver_state" where
  "DrvUnsupported env s Irp = complete STATUS_SUCCESS (call_Log env LogWarning s) Irp"

text \<open>
  The body of the \<open>switch\<close> of the dispatcher: it yields the \<open>Status\<close> that the code
  after the \<open>switch\<close> then looks at.
\<close>

definition ioctl_switch ::
  "'h kernel_env \<Rightarrow> 'h driver_state \<Rightarrow> irp
     \<Rightarrow> ntstatus \<times> irp \<times> 'h driver_state" where
  "ioctl_switch env s Irp =
     (case IoControlCode Irp of
        IOCTL_REGISTER_EVENT \<Rightarrow>
          if InputBufferLength Irp < SIZEOF_REGISTER_EVENT env \<or> SystemBuffer Irp = None
          then (STATUS_INVALID_PARAMETER, Irp, call_Log env LogError s)
          else (case SystemBuffer Irp of
                  None \<Rightarrow> (STATUS_INVALID_PARAMETER, Irp, call_Log env LogError s)
                | Some RegisterEvent \<Rightarrow>
                    (case Type RegisterEvent of
                       IRP_BASED \<Rightarrow> call_LogRegisterIrpBasedNotification env s Irp
                     | EVENT_BASED \<Rightarrow> call_LogRegisterEventBasedNotification env s Irp
                     | NOTIFY_OTHER _ \<Rightarrow>
                         (STATUS_INVALID_PARAMETER, Irp, call_Log env LogError s)))
      | IOCTL_RETURN_IRP_PENDING_PACKETS_AND_DISALLOW_IOCTL \<Rightarrow>
          (STATUS_SUCCESS, Irp,
           call_Log env LogInfoImmediate (s\<lparr>g_AllowIOCTLFromUsermode := False\<rparr>))
      | IOCTL_TERMINATE_VMX \<Rightarrow> (STATUS_SUCCESS, Irp, call_HvTerminateVmx env s)
      | IOCTL_OTHER _ \<Rightarrow> (STATUS_NOT_IMPLEMENTED, Irp, call_Log env LogError s))"

definition DrvDispatchIoControl ::
  "'h kernel_env \<Rightarrow> 'h driver_state \<Rightarrow> irp
     \<Rightarrow> ntstatus \<times> irp \<times> 'h driver_state" where
  "DrvDispatchIoControl env s Irp =
     (let (Status, Irp1, s1) =
            (if g_AllowIOCTLFromUsermode s then
               let s0 = call_PoolManagerCheckAndPerformAllocation env s;
                   s0' = emit E_IoGetCurrentIrpStackLocation s0
               in ioctl_switch env s0' Irp
             else (STATUS_SUCCESS, Irp, s))
      in if Status \<noteq> STATUS_PENDING then complete Status s1 Irp1
         else (Status, Irp1, s1))"

subsection \<open>The dispatch table set up by DriverEntry\<close>

text \<open>
  \<open>DriverObject->MajorFunction\<close> is indexed by the major function code of the
  request, from 0 to \<open>IRP_MJ_MAXIMUM_FUNCTION\<close>. The codes are those of the Windows
  headers.
\<close>

type_synonym major_function = nat

definition IRP_MJ_CREATE :: major_function where
  "IRP_MJ_CREATE = 0"

definition IRP_MJ_CLOSE :: major_function where
  "IRP_MJ_CLOSE = 2"

definition IRP_MJ_READ :: major_function where
  "IRP_MJ_READ = 3"

definition IRP_MJ_WRITE :: major_function where
  "IRP_MJ_WRITE = 4"

definition IRP_MJ_DEVICE_CONTROL :: major_function where
  "IRP_MJ_DEVICE_CONTROL = 14"

definition IRP_MJ_MAXIMUM_FUNCTION :: major_function where
  "IRP_MJ_MAXIMUM_FUNCTION = 27"

text \<open>
  The entry the I/O manager puts in every slot before \<open>DriverEntry\<close> runs: it
  completes the request with \<open>STATUS_INVALID_DEVICE_REQUEST\<close>.
\<close>

definition IopInvalidDeviceRequest ::
  "'h driver_state \<Rightarrow> irp \<Rightarrow> ntstatus \<times> irp \<times> 'h driver_state" where
  "IopInvalidDeviceRequest s Irp = complete STATUS_INVALID_DEVICE_REQUEST s Irp"

text \<open>
  \<open>DriverEntry\<close> sets the slots \<open>Index < IRP_MJ_MAXIMUM_FUNCTION\<close> to
  \<open>DrvUnsupported\<close> and then those of close, create, read, write and device control
  to their handlers. The slot \<open>IRP_MJ_MAXIMUM_FUNCTION\<close> itself is not written and
  keeps the entry of the I/O manager; there is no slot beyond it.
\<close>

definition MajorFunction ::
  "major_function \<Rightarrow> 'h kernel_env \<Rightarrow> 'h driver_state \<Rightarrow> irp
     \<Rightarrow> ntstatus \<times> irp \<times> 'h driver_state" where
  "MajorFunction mj env s Irp =
     (if mj = IRP_MJ_CLOSE then DrvClose s Irp
      else if mj = IRP_MJ_CREATE then DrvCreate env s Irp
      else if mj = IRP_MJ_READ then DrvRead env s Irp
      else if mj = IRP_MJ_WRITE then DrvWrite env s Irp
      else if mj = IRP_MJ_DEVICE_CONTROL then DrvDispatchIoControl env s Irp
      else if mj < IRP_MJ_MAXIMUM_FUNCTION then DrvUnsupported env s Irp
      else IopInvalidDeviceRequest s Irp)"

text \<open>
  A run of the driver: the requests arrive one after the other, each with the
  behaviour of the kernel and of the collaborators at that moment.
\<close>

fun run ::
  "('h kernel_env \<times> major_function \<times> irp) list \<Rightarrow> 'h driver_state
     \<Rightarrow> 'h driver_state" where
  "run [] s = s"
| "run ((env, mj, Irp) # rs) s = run rs (snd (snd (MajorFunction mj env s Irp)))"

text \<open>The events a handler added to the trace it started with.\<close>

definition new_events :: "'h driver_state \<Rightarrow> 'h driver_state \<Rightarrow> event list" where
  "new_events s s' = drop (length (trace s)) (trace s')"

text \<open>
  What \<open>DrvCreate\<close> passes to \<open>HvVmxInitialize\<close> and to \<open>DebuggerInitialize\<close> when the
  requestor is privileged and the handle is free: the guest state and the
  collaborators after the first \<open>LogInfo\<close> and the zeroing, and after
  \<open>HvVmxInitialize\<close> and the second \<open>LogInfo\<close>.
\<close>

definition world_at_HvVmxInitialize :: "'h kernel_env \<Rightarrow> 'h driver_state \<Rightarrow> byte list \<times> 'h" where
  "world_at_HvVmxInitialize env s =
     (RtlZeroMemory (fst (Log env LogInfo (world s)))
        (size_in_bytes (SIZEOF_VIRTUAL_MACHINE_STATE env) (KeQueryActiveProcessorCount env)),
      snd (Log env LogInfo (world s)))"

definition world_at_DebuggerInitialize ::
  "'h kernel_env \<Rightarrow> 'h driver_state \<Rightarrow> byte list \<times> 'h" where
  "world_at_DebuggerInitialize env s =
     Log env LogInfo (snd (HvVmxInitialize env (world_at_HvVmxInitialize env s)))"

fun is_HvVmxInitialize :: "event \<Rightarrow> bool" where
  "is_HvVmxInitialize (E_HvVmxInitialize gs ok) = True"
| "is_HvVmxInitialize _ = False"

text \<open>
  The calls of a \<open>DrvCreate\<close> that passes both of its checks, in the order of the C
  code: \<open>pc\<close> is the processor count, \<open>len\<close> the number of bytes to clear, \<open>gs\<close> the
  guest-state array at the call of \<open>HvVmxInitialize\<close>, \<open>hv\<close> and \<open>dbg\<close> the results of
  \<open>HvVmxInitialize\<close> and of \<open>DebuggerInitialize\<close>.
\<close>

definition create_events :: "32 word \<Rightarrow> nat \<Rightarrow> byte list \<Rightarrow> bool \<Rightarrow> bool \<Rightarrow> event list" where
  "create_events pc len gs hv dbg =
     [E_SeSinglePrivilegeCheck True, E_Log LogInfo, E_KeQueryActiveProcessorCount pc,
      E_RtlZeroMemory len, E_HvVmxInitialize gs hv] @
     (if hv then [E_Log LogInfo, E_DebuggerInitialize dbg] @
        (if dbg then [E_Log LogInfo, E_IoCompleteRequest STATUS_SUCCESS]
         else [E_Log LogError, E_IoCompleteRequest STATUS_UNSUCCESSFUL])
      else [E_Log LogError, E_IoCompleteRequest STATUS_UNSUCCESSFUL])"

subsection \<open>A concrete machine for evaluation\<close>

text \<open>
  Two processors, a guest state of two bytes each, and collaborators whose state
  counts the calls made to them. User-mode requestors lack the debug privilege,
  kernel-mode requestors pass the check.
\<close>

definition sample_env :: "nat kernel_env" where
  "sample_env =
     \<lparr>SeSinglePrivilegeCheck = (\<lambda>m. m = KernelMode),
      KeQueryActiveProcessorCount = 2,
      SIZEOF_VIRTUAL_MACHINE_STATE = 2,
      SIZEOF_REGISTER_EVENT = 8,
      Log = (\<lambda>k w. w),
      HvVmxInitialize = (\<lambda>w. (True, map (\<lambda>b. b + 1) (fst w), Suc (snd w))),
      DebuggerInitialize = (\<lambda>w. (True, fst w, Suc (snd w))),
      PoolManagerCheckAndPerformAllocation = (\<lambda>w. (fst w, Suc (snd w))),
      HvTerminateVmx = (\<lambda>w. (fst w, Suc (snd w))),
      LogRegisterIrpBasedNotification = (\<lambda>Irp w. (STATUS_PENDING, Irp, w)),
      LogRegisterEventBasedNotification = (\<lambda>Irp w. (STATUS_SUCCESS, Irp, w))\<rparr>"

definition failing_env :: "nat kernel_env" where
  "failing_env = sample_env\<lparr>HvVmxInitialize := (\<lambda>w. (False, w))\<rparr>"

definition debugger_failing_env :: "nat kernel_env" where
  "debugger_failing_env = sample_env\<lparr>DebuggerInitialize := (\<lambda>w. (False, w))\<rparr>"

definition sample_state :: "nat driver_state" where
  "sample_state =
     \<lparr>g_HandleInUse = False, g_AllowIOCTLFromUsermode = False, g_GuestState = [7, 9, 7, 9],
      pool_overrun = False, collaborators = 0, trace = []\<rparr>"

definition sample_irp :: "kprocessor_mode \<Rightarrow> ioctl_code \<Rightarrow> irp" where
  "sample_irp m c =
     \<lparr>RequestorMode = m, IoStatus_Status = 0, IoStatus_Information = 0, IoControlCode = c,
      InputBufferLength = 0, SystemBuffer = None, Completed = 0\<rparr>"

definition allowed_state :: "nat driver_state" where
  "allowed_state = sample_state\<lparr>g_AllowIOCTLFromUsermode := True\<rparr>"

definition in_use_state :: "nat driver_state" where
  "in_use_state = sample_state\<lparr>g_HandleInUse := True, g_AllowIOCTLFromUsermode := True\<rparr>"

text \<open>
  The state after the request to stop serving IOCTLs, and the state after a
  \<open>DrvCreate\<close> whose \<open>HvVmxInitialize\<close> fails then.
\<close>

definition disallowed_state :: "nat driver_state" where
  "disallowed_state =
     snd (snd (DrvDispatchIoControl sample_env allowed_state
                 (sample_irp KernelMode IOCTL_RETURN_IRP_PENDING_PACKETS_AND_DISALLOW_IOCTL)))"

definition failed_create_state :: "nat driver_state" where
  "failed_create_state =
     snd (snd (DrvCreate failing_env disallowed_state (sample_irp KernelMode (IOCTL_OTHER 0))))"

section \<open>Breakpoint engine\<close>

text \<open>
  Modelled from the spec: the breakpoint engine (\<open>SetSoftwareBreakpoint\<close>,
  \<open>ClearBreakpoint\<close>, the \<open>BreakpointDescriptor\<close>) is in none of the source files at
  hand. The descriptor has the fields of section 3; the engine is the guest memory
  and the descriptors by target address. A breakpoint is active at an address when
  a descriptor is recorded there and is enabled.
\<close>

record breakpoint_descriptor =
  bp_process :: nat
  bp_original :: "8 word"
  bp_enabled :: bool
  bp_hit_count :: nat

record bp_engine =
  guest_memory :: "64 word \<Rightarrow> 8 word"
  descriptors :: "64 word \<rightharpoonup> breakpoint_descriptor"

datatype bp_result = BpDone | BpNotFound | BpAlreadySet

definition bp_active :: "bp_engine \<Rightarrow> 64 word \<Rightarrow> bool" where
  "bp_active e a = (case descriptors e a of None \<Rightarrow> False | Some d \<Rightarrow> bp_enabled d)"

definition TRAP_INSTRUCTION :: "8 word" where
  "TRAP_INSTRUCTION = 0xCC"

text \<open>
  Modelled from the spec: \<open>SetSoftwareBreakpoint\<close> "saves the original instruction byte,
  writes a trap instruction, and records a BreakpointDescriptor". The spec does not say
  what a second set on an active address does; here it is refused without a change.
\<close>

definition SetSoftwareBreakpoint :: "nat \<Rightarrow> 64 word \<Rightarrow> bp_engine \<Rightarrow> bp_result \<times> bp_engine" where
  "SetSoftwareBreakpoint proc a e =
     (if bp_active e a then (BpAlreadySet, e)
      else (BpDone,
            e\<lparr>guest_memory := (guest_memory e)(a := TRAP_INSTRUCTION),
              descriptors := (descriptors e)(a \<mapsto>
                \<lparr>bp_process = proc, bp_original = guest_memory e a, bp_enabled = True,
                 bp_hit_count = 0\<rparr>)\<rparr>))"

text \<open>
  Modelled from the spec: \<open>ClearBreakpoint\<close> "restores the original byte"; the
  descriptor is "removed on explicit disable"; on an address with no active breakpoint
  it "is a no-op and returns a not found result".
\<close>

definition ClearBreakpoint :: "64 word \<Rightarrow> bp_engine \<Rightarrow> bp_result \<times> bp_engine" where
  "ClearBreakpoint a e =
     (case descriptors e a of
        None \<Rightarrow> (BpNotFound, e)
      | Some d \<Rightarrow>
          if bp_enabled d
          then (BpDone,
                e\<lparr>guest_memory := (guest_memory e)(a := bp_original d),
                  descriptors := (descriptors e)(a := None)\<rparr>)
          else (BpNotFound, e))"

definition sample_engine :: bp_engine where
  "sample_engine = \<lparr>guest_memory = (\<lambda>a. 0x90), descriptors = Map.empty\<rparr>"

section \<open>EPT manager\<close>

text \<open>
  Modelled from the spec: the EPT manager (\<open>HookPage\<close>, \<open>UnhookPage\<close>, the
  \<open>EptPageTableHierarchy\<close>) is in none of the source files at hand. The hierarchy is
  cut down to what the access rights of an address depend on: the 2MB entry that
  covers it, which is a large page or has been split into 512 entries of 4KB, and the
  saved state, which holds the original rights of every hooked 4KB page.
\<close>

record ept_rights =
  ReadAccess :: bool
  WriteAccess :: bool
  ExecuteAccess :: bool

datatype hook_mode = ExecuteTrap | WriteTrap | ReadTrap

datatype ept_pde = LargePage ept_rights | SplitPage "nat \<Rightarrow> ept_rights"

record ept_hierarchy =
  pde :: "nat \<Rightarrow> ept_pde"
  saved :: "nat \<rightharpoonup> ept_rights"

definition pde_index :: "64 word \<Rightarrow> nat" where
  "pde_index gpa = unat gpa div 2097152"

definition pte_index :: "64 word \<Rightarrow> nat" where
  "pte_index gpa = (unat gpa div 4096) mod 512"

definition page_number :: "64 word \<Rightarrow> nat" where
  "page_number gpa = unat gpa div 4096"

definition entry_rights :: "ept_hierarchy \<Rightarrow> 64 word \<Rightarrow> ept_rights" where
  "entry_rights h gpa =
     (case pde h (pde_index gpa) of
        LargePage r \<Rightarrow> r
      | SplitPage pt \<Rightarrow> pt (pte_index gpa))"

text \<open>Splitting a large page gives each of its 4KB entries the rights of the large page.\<close>

definition split_pde :: "ept_pde \<Rightarrow> nat \<Rightarrow> ept_rights" where
  "split_pde e = (case e of LargePage r \<Rightarrow> (\<lambda>i. r) | SplitPage pt \<Rightarrow> pt)"

definition set_entry_rights :: "ept_hierarchy \<Rightarrow> 64 word \<Rightarrow> ept_rights \<Rightarrow> ept_hierarchy" where
  "set_entry_rights h gpa r =
     h\<lparr>pde := (pde h)(pde_index gpa :=
         SplitPage ((split_pde (pde h (pde_index gpa)))(pte_index gpa := r)))\<rparr>"

definition trap_rights :: "hook_mode \<Rightarrow> ept_rights \<Rightarrow> ept_rights" where
  "trap_rights m r =
     (case m of
        ExecuteTrap \<Rightarrow> r\<lparr>ExecuteAccess := False\<rparr>
      | WriteTrap \<Rightarrow> r\<lparr>WriteAccess := False\<rparr>
      | ReadTrap \<Rightarrow> r\<lparr>ReadAccess := False\<rparr>)"

text \<open>
  Modelled from the spec: \<open>HookPage\<close> "splits the covering large page into 4KB entries
  if necessary" and "marks the entry to trap the given access type". The saved state
  is what \<open>UnhookPage\<close> restores "the original mapping" from, so the rights are saved
  when the page is not hooked yet and kept when it is.
\<close>

definition HookPage :: "64 word \<Rightarrow> hook_mode \<Rightarrow> ept_hierarchy \<Rightarrow> ept_hierarchy" where
  "HookPage gpa m h =
     (let r = entry_rights h gpa;
          h' = (case saved h (page_number gpa) of
                  None \<Rightarrow> h\<lparr>saved := (saved h)(page_number gpa \<mapsto> r)\<rparr>
                | Some _ \<Rightarrow> h)
      in set_entry_rights h' gpa (trap_rights m r))"

text \<open>
  Modelled from the spec: \<open>UnhookPage\<close> "restores the original mapping", with the
  rights taken from the saved state; on a page that is not hooked it does nothing.
\<close>

definition UnhookPage :: "64 word \<Rightarrow> ept_hierarchy \<Rightarrow> ept_hierarchy" where
  "UnhookPage gpa h =
     (case saved h (page_number gpa) of
        None \<Rightarrow> h
      | Some r \<Rightarrow> (set_entry_rights h gpa r)\<lparr>saved := (saved h)(page_number gpa := None)\<rparr>)"

datatype ept_call = Hook hook_mode | Unhook

fun ept_apply :: "64 word \<Rightarrow> ept_call \<Rightarrow> ept_hierarchy \<Rightarrow> ept_hierarchy" where
  "ept_apply gpa (Hook m) h = HookPage gpa m h"
| "ept_apply gpa Unhook h = UnhookPage gpa h"

fun ept_apply_all :: "64 word \<Rightarrow> ept_call list \<Rightarrow> ept_hierarchy \<Rightarrow> ept_hierarchy" where
  "ept_apply_all gpa [] h = h"
| "ept_apply_all gpa (c # cs) h = ept_apply_all gpa cs (ept_apply gpa c h)"

definition full_access :: ept_rights where
  "full_access = \<lparr>ReadAccess = True, WriteAccess = True, ExecuteAccess = True\<rparr>"

definition identity_map :: ept_hierarchy where
  "identity_map = \<lparr>pde = (\<lambda>i. LargePage full_access), saved = Map.empty\<rparr>"

text \<open>
  What holds of the entry of \<open>gpa\<close> between the calls, \<open>r0\<close> being the rights before the
  first hook: a page that is not hooked has them, and the saved state of a hooked
  page holds them.
\<close>

definition hook_inv :: "ept_rights \<Rightarrow> 64 word \<Rightarrow> ept_hierarchy \<Rightarrow> bool" where
  "hook_inv r0 gpa h =
     (case saved h (page_number gpa) of
        None \<Rightarrow> entry_rights h gpa = r0
      | Some r \<Rightarrow> r = r0)"

section \<open>Event and hook registry\<close>

text \<open>
  Modelled from the spec: the registry (\<open>Register\<close>, the \<open>EventHookEntry\<close>) is in none of
  the source files at hand. An entry has the fields of section 3; a condition is an
  exit reason with its qualifier; the scope is one logical processor or global.
\<close>

record hook_condition =
  exit_reason :: nat
  qualifier :: nat

datatype hook_action = LogAction | BreakAction | RedirectAction

datatype hook_scope = GlobalScope | ProcessorScope nat

record event_hook_entry =
  hook_id :: nat
  condition :: hook_condition
  action :: hook_action
  scope :: hook_scope

record hook_registry =
  entries :: "event_hook_entry list"
  next_id :: nat

datatype registry_error = ConflictingRegistration

definition conflicts :: "hook_registry \<Rightarrow> hook_condition \<Rightarrow> hook_scope \<Rightarrow> bool" where
  "conflicts reg c sc = (\<exists>e \<in> set (entries reg). condition e = c \<and> scope e = sc)"

text \<open>
  Modelled from the spec: \<open>Register(condition, action, scope) -> hookId\<close>, where
  "conflicting registrations (same condition, same scope) are rejected, not merged"
  and a protocol misuse "returns a typed failure, no state change".
\<close>

definition Register ::
  "hook_condition \<Rightarrow> hook_action \<Rightarrow> hook_scope \<Rightarrow> hook_registry
     \<Rightarrow> (registry_error + nat) \<times> hook_registry" where
  "Register c a sc reg =
     (if conflicts reg c sc then (Inl ConflictingRegistration, reg)
      else (Inr (next_id reg),
            reg\<lparr>entries := entries reg @
                   [\<lparr>hook_id = next_id reg, condition = c, action = a, scope = sc\<rparr>],
                next_id := Suc (next_id reg)\<rparr>))"

fun Register_all ::
  "(hook_condition \<times> hook_action \<times> hook_scope) list \<Rightarrow> hook_registry \<Rightarrow> hook_registry" where
  "Register_all [] reg = reg"
| "Register_all ((c, a, sc) # rs) reg = Register_all rs (snd (Register c a sc reg))"

definition entries_for :: "hook_registry \<Rightarrow> hook_condition \<Rightarrow> hook_scope \<Rightarrow> event_hook_entry list" where
  "entries_for reg c sc = filter (\<lambda>e. condition e = c \<and> scope e = sc) (entries reg)"

definition empty_registry :: hook_registry where
  "empty_registry = \<lparr>entries = [], next_id = 0\<rparr>"

definition sample_condition :: hook_condition where
  "sample_condition = \<lparr>exit_reason = 31, qualifier = 372\<rparr>"

definition entry_key :: "event_hook_entry \<Rightarrow> hook_condition \<times> hook_scope" where
  "entry_key e = (condition e, scope e)"

section \<open>Properties of the driver shell\<close>

lemmas status_defs = STATUS_SUCCESS_def STATUS_PENDING_def STATUS_UNSUCCESSFUL_def
  STATUS_NOT_IMPLEMENTED_def STATUS_INVALID_PARAMETER_def STATUS_ACCESS_DENIED_def
  STATUS_INVALID_DEVICE_REQUEST_def

lemmas call_defs = emit_def world_def set_world_def call_Log_def call_HvVmxInitialize_def
  call_DebuggerInitialize_def call_PoolManagerCheckAndPerformAllocation_def
  call_HvTerminateVmx_def call_LogRegisterIrpBasedNotification_def
  call_LogRegisterEventBasedNotification_def call_RtlZeroMemory_def complete_def

lemmas sample_defs = sample_env_def failing_env_def debugger_failing_env_def sample_state_def
  sample_irp_def allowed_state_def in_use_state_def

lemmas mj_defs = IRP_MJ_CREATE_def IRP_MJ_CLOSE_def IRP_MJ_READ_def IRP_MJ_WRITE_def
  IRP_MJ_DEVICE_CONTROL_def IRP_MJ_MAXIMUM_FUNCTION_def

subsection \<open>The handlers, call by call\<close>

lemmas switch_splits = ioctl_code.splits option.splits notify_type.splits prod.splits

lemmas eval_defs = DrvCreate_def DrvClose_def DrvDispatchIoControl_def ioctl_switch_def
  RtlZeroMemory_def size_in_bytes_def new_events_def Let_def

lemma call_Log_simps [simp]:
  "g_HandleInUse (call_Log env k s) = g_HandleInUse s"
  "g_AllowIOCTLFromUsermode (call_Log env k s) = g_AllowIOCTLFromUsermode s"
  "trace (call_Log env k s) = trace s @ [E_Log k]"
  by (simp_all add: call_defs)

lemma sample_create:
  "DrvCreate sample_env sample_state (sample_irp KernelMode (IOCTL_OTHER 0)) =
    (STATUS_SUCCESS,
     (sample_irp KernelMode (IOCTL_OTHER 0))\<lparr>IoStatus_Status := STATUS_SUCCESS, Completed := 1\<rparr>,
     \<lparr>g_HandleInUse = True, g_AllowIOCTLFromUsermode = True, g_GuestState = [1, 1, 1, 1],
      pool_overrun = False, collaborators = 2,
      trace = create_events 2 4 [0, 0, 0, 0] True True\<rparr>)"
  by (simp add: eval_defs call_defs sample_defs create_events_def)

lemma disallowed_state_eq:
  "disallowed_state =
     \<lparr>g_HandleInUse = False, g_AllowIOCTLFromUsermode = False, g_GuestState = [7, 9, 7, 9],
      pool_overrun = False, collaborators = 1,
      trace = [E_PoolManagerCheckAndPerformAllocation, E_IoGetCurrentIrpStackLocation,
               E_Log LogInfoImmediate, E_IoCompleteRequest STATUS_SUCCESS]\<rparr>"
  by (simp add: disallowed_state_def eval_defs call_defs sample_defs status_defs)

lemma failed_create_eq:
  "DrvCreate failing_env disallowed_state (sample_irp KernelMode (IOCTL_OTHER 0)) =
     (STATUS_UNSUCCESSFUL,
      (sample_irp KernelMode (IOCTL_OTHER 0))\<lparr>IoStatus_Status := STATUS_UNSUCCESSFUL, Completed := 1\<rparr>,
      \<lparr>g_HandleInUse = False, g_AllowIOCTLFromUsermode = True, g_GuestState = [0, 0, 0, 0],
       pool_overrun = False, collaborators = 1,
       trace = trace disallowed_state @ create_events 2 4 [0, 0, 0, 0] False False\<rparr>)"
  by (simp add: disallowed_state_eq eval_defs call_defs sample_defs create_events_def)

lemma sample_failed_create:
  "DrvCreate failing_env sample_state (sample_irp KernelMode (IOCTL_OTHER 0)) =
     (STATUS_UNSUCCESSFUL,
      (sample_irp KernelMode (IOCTL_OTHER 0))\<lparr>IoStatus_Status := STATUS_UNSUCCESSFUL, Completed := 1\<rparr>,
      \<lparr>g_HandleInUse = False, g_AllowIOCTLFromUsermode = True, g_GuestState = [0, 0, 0, 0],
       pool_overrun = False, collaborators = 0,
       trace = create_events 2 4 [0, 0, 0, 0] False False\<rparr>)"
  by (simp add: eval_defs call_defs sample_defs create_events_def)

lemma scast_small:
  assumes "(pc :: 32 word) < 2 ^ 31"
  shows "unat (scast pc :: 64 word) = unat pc"
proof -
  have tb: "take_bit 31 pc = pc"
    using assms by (simp add: take_bit_eq_mask less_mask_eq)
  have nb: "\<not> bit pc n" if "31 \<le> n" for n
  proof -
    have "bit pc n = bit (take_bit 31 pc) n" by (simp add: tb)
    then show ?thesis using that by (simp add: bit_take_bit_iff)
  qed
  have "(scast pc :: 64 word) = ucast pc"
  proof (rule bit_word_eqI)
    fix n assume "n < LENGTH(64)"
    show "bit (scast pc :: 64 word) n = bit (ucast pc :: 64 word) n"
    proof (cases "n < 31")
      case True
      then show ?thesis by (simp add: bit_signed_iff bit_unsigned_iff min_def)
    next
      case False
      then have "\<not> bit pc n" "\<not> bit pc 31" using nb by simp_all
      then show ?thesis using False \<open>n < LENGTH(64)\<close>
        by (simp add: bit_signed_iff bit_unsigned_iff min_def)
    qed
  qed
  moreover have "unat (ucast pc :: 64 word) = unat pc"
    by (simp add: unsigned_ucast_eq take_bit_nat_eq_self_iff)
       (rule less_trans [OF unsigned_less], simp)
  ultimately show ?thesis by simp
qed

lemma size_in_bytes_exact:
  assumes "pc < 2 ^ 31" and "unat sz * unat pc < 2 ^ 64"
  shows "size_in_bytes sz pc = unat sz * unat pc"
proof -
  have "unat sz * unat (scast pc :: 64 word) < 2 ^ LENGTH(64)"
    using assms by (simp add: scast_small)
  then have "unat (sz * (scast pc :: 64 word)) = unat sz * unat (scast pc :: 64 word)"
    by (simp only: unat_mult_lem)
  then show ?thesis using assms(1) by (simp add: size_in_bytes_def scast_small)
qed

lemma RtlZeroMemory_zeroes:
  "i < n \<Longrightarrow> i < length mem \<Longrightarrow> RtlZeroMemory mem n ! i = 0"
  by (simp add: RtlZeroMemory_def nth_append)

lemma RtlZeroMemory_length [simp]: "length (RtlZeroMemory mem n) = length mem"
  by (simp add: RtlZeroMemory_def)

lemma zero_prefix_all:
  assumes "\<forall>i. i < n \<and> i < length gs \<longrightarrow> gs ! i = (0::'a::zero)" and "length gs \<le> n"
  shows "gs = replicate (length gs) 0"
  using assms by (simp add: list_eq_iff_nth_eq)

lemma world_at_HvVmxInitialize_zeroes:
  "j < size_in_bytes (SIZEOF_VIRTUAL_MACHINE_STATE env) (KeQueryActiveProcessorCount env) \<Longrightarrow>
   j < length (fst (world_at_HvVmxInitialize env s)) \<Longrightarrow>
   fst (world_at_HvVmxInitialize env s) ! j = 0"
  by (simp add: world_at_HvVmxInitialize_def RtlZeroMemory_zeroes)

text \<open>
  A \<open>DrvCreate\<close> that passes both checks, with what it hands to the two
  initialisers and what they return.
\<close>

lemma DrvCreate_admitted_values:
  assumes priv: "SeSinglePrivilegeCheck env (RequestorMode Irp)"
      and free: "\<not> g_HandleInUse s"
  shows "trace (snd (snd (DrvCreate env s Irp))) =
           trace s @
           create_events (KeQueryActiveProcessorCount env)
             (size_in_bytes (SIZEOF_VIRTUAL_MACHINE_STATE env) (KeQueryActiveProcessorCount env))
             (fst (world_at_HvVmxInitialize env s))
             (fst (HvVmxInitialize env (world_at_HvVmxInitialize env s)))
             (fst (DebuggerInitialize env (world_at_DebuggerInitialize env s))) \<and>
         fst (DrvCreate env s Irp) =
           (if fst (HvVmxInitialize env (world_at_HvVmxInitialize env s)) \<and>
               fst (DebuggerInitialize env (world_at_DebuggerInitialize env s))
            then STATUS_SUCCESS else STATUS_UNSUCCESSFUL) \<and>
         g_HandleInUse (snd (snd (DrvCreate env s Irp))) =
           (fst (HvVmxInitialize env (world_at_HvVmxInitialize env s)) \<and>
            fst (DebuggerInitialize env (world_at_DebuggerInitialize env s))) \<and>
         g_AllowIOCTLFromUsermode (snd (snd (DrvCreate env s Irp))) \<and>
         pool_overrun (snd (snd (DrvCreate env s Irp))) =
           (pool_overrun s \<or>
            length (fst (world_at_HvVmxInitialize env s)) <
              size_in_bytes (SIZEOF_VIRTUAL_MACHINE_STATE env) (KeQueryActiveProcessorCount env))"
proof -
  define pc where "pc = KeQueryActiveProcessorCount env"
  define len where "len = size_in_bytes (SIZEOF_VIRTUAL_MACHINE_STATE env) pc"
  define s2 where
    "s2 = call_Log env LogInfo ((emit (E_SeSinglePrivilegeCheck True) s)\<lparr>g_AllowIOCTLFromUsermode := True\<rparr>)"
  define s4 where "s4 = call_RtlZeroMemory len (emit (E_KeQueryActiveProcessorCount pc) s2)"
  obtain hv s5 where c5: "call_HvVmxInitialize env s4 = (hv, s5)"
    by (cases "call_HvVmxInitialize env s4") auto
  obtain dbg s7 where c7: "call_DebuggerInitialize env (call_Log env LogInfo s5) = (dbg, s7)"
    by (cases "call_DebuggerInitialize env (call_Log env LogInfo s5)") auto
  have unfold: "DrvCreate env s Irp =
      (if hv then
         if dbg then complete STATUS_SUCCESS ((call_Log env LogInfo s7)\<lparr>g_HandleInUse := True\<rparr>) Irp
         else complete STATUS_UNSUCCESSFUL (call_Log env LogError s7) Irp
       else complete STATUS_UNSUCCESSFUL (call_Log env LogError s5) Irp)"
    using priv free c5 c7
    by (simp add: DrvCreate_def Let_def s2_def s4_def len_def pc_def emit_def)
  have w2: "world s2 = Log env LogInfo (world s)"
    by (simp add: s2_def call_defs)
  have g2: "g_GuestState s2 = fst (Log env LogInfo (world s))"
           "collaborators s2 = snd (Log env LogInfo (world s))"
    by (simp_all add: s2_def call_defs)
  have w4: "world s4 = world_at_HvVmxInitialize env s"
    using g2 by (simp add: s4_def call_defs world_at_HvVmxInitialize_def len_def pc_def)
  have t4: "trace s4 = trace s @ [E_SeSinglePrivilegeCheck True, E_Log LogInfo,
              E_KeQueryActiveProcessorCount pc, E_RtlZeroMemory len]"
    by (simp add: s4_def s2_def call_RtlZeroMemory_def emit_def)
  have f4: "\<not> g_HandleInUse s4" "g_AllowIOCTLFromUsermode s4"
    using free by (simp_all add: s4_def s2_def call_RtlZeroMemory_def emit_def)
  have l2: "length (g_GuestState s2) = length (fst (world_at_HvVmxInitialize env s))"
    using g2 by (simp add: world_at_HvVmxInitialize_def)
  have o4: "pool_overrun s4 = (pool_overrun s \<or> length (fst (world_at_HvVmxInitialize env s)) < len)"
    using l2 by (simp add: s4_def s2_def call_defs)
  have g4: "g_GuestState s4 = fst (world_at_HvVmxInitialize env s)"
    using w4 [symmetric] by (simp add: world_def)
  have hv: "hv = fst (HvVmxInitialize env (world_at_HvVmxInitialize env s))"
    using c5 w4 by (auto simp: call_HvVmxInitialize_def split: prod.splits)
  have s5: "trace s5 = trace s4 @ [E_HvVmxInitialize (g_GuestState s4) hv]"
       "g_HandleInUse s5 = g_HandleInUse s4"
       "g_AllowIOCTLFromUsermode s5 = g_AllowIOCTLFromUsermode s4"
       "pool_overrun s5 = pool_overrun s4"
       "world s5 = snd (HvVmxInitialize env (world_at_HvVmxInitialize env s))"
    using c5 w4
    by (auto simp: call_HvVmxInitialize_def emit_def set_world_def world_def split: prod.splits)
  have w6: "world (call_Log env LogInfo s5) = world_at_DebuggerInitialize env s"
    using s5(5) by (simp add: call_defs world_at_DebuggerInitialize_def)
  have dbg: "dbg = fst (DebuggerInitialize env (world_at_DebuggerInitialize env s))"
    using c7 w6 by (auto simp: call_DebuggerInitialize_def split: prod.splits)
  have p6: "pool_overrun (call_Log env LogInfo s5) = pool_overrun s5"
    by (simp add: call_defs)
  have s7: "trace s7 = trace s5 @ [E_Log LogInfo, E_DebuggerInitialize dbg]"
       "g_HandleInUse s7 = g_HandleInUse s5"
       "g_AllowIOCTLFromUsermode s7 = g_AllowIOCTLFromUsermode s5"
       "pool_overrun s7 = pool_overrun s5"
    using c7 p6
    by (auto simp: call_DebuggerInitialize_def emit_def set_world_def split: prod.splits)
  have po: "pool_overrun (call_Log env k s') = pool_overrun s'" for k s'
    by (simp add: call_defs)
  have "trace (snd (snd (DrvCreate env s Irp))) =
          trace s @ create_events pc len (g_GuestState s4) hv dbg \<and>
        fst (DrvCreate env s Irp) = (if hv \<and> dbg then STATUS_SUCCESS else STATUS_UNSUCCESSFUL) \<and>
        g_HandleInUse (snd (snd (DrvCreate env s Irp))) = (hv \<and> dbg) \<and>
        g_AllowIOCTLFromUsermode (snd (snd (DrvCreate env s Irp))) \<and>
        pool_overrun (snd (snd (DrvCreate env s Irp))) = pool_overrun s4"
    using f4 by (simp add: unfold complete_def emit_def create_events_def t4 s5 s7 po)
  then show ?thesis
    unfolding g4 hv [symmetric] dbg [symmetric] o4 len_def pc_def by simp
qed

lemma DrvCreate_admitted:
  assumes priv: "SeSinglePrivilegeCheck env (RequestorMode Irp)"
      and free: "\<not> g_HandleInUse s"
  shows "\<exists>gs hv dbg.
           trace (snd (snd (DrvCreate env s Irp))) =
             trace s @
             create_events (KeQueryActiveProcessorCount env)
               (size_in_bytes (SIZEOF_VIRTUAL_MACHINE_STATE env) (KeQueryActiveProcessorCount env))
               gs hv dbg \<and>
           fst (DrvCreate env s Irp) = (if hv \<and> dbg then STATUS_SUCCESS else STATUS_UNSUCCESSFUL) \<and>
           g_HandleInUse (snd (snd (DrvCreate env s Irp))) = (hv \<and> dbg) \<and>
           g_AllowIOCTLFromUsermode (snd (snd (DrvCreate env s Irp)))"
  using DrvCreate_admitted_values [OF priv free] by blast

lemma DrvCreate_rejected:
  "\<not> SeSinglePrivilegeCheck env (RequestorMode Irp) \<or> g_HandleInUse s \<Longrightarrow>
   DrvCreate env s Irp =
     (if SeSinglePrivilegeCheck env (RequestorMode Irp) then STATUS_UNSUCCESSFUL
      else STATUS_ACCESS_DENIED,
      Irp\<lparr>IoStatus_Status :=
            (if SeSinglePrivilegeCheck env (RequestorMode Irp) then STATUS_UNSUCCESSFUL
             else STATUS_ACCESS_DENIED),
          IoStatus_Information := 0, Completed := Suc (Completed Irp)\<rparr>,
      s\<lparr>trace := trace s @
           [E_SeSinglePrivilegeCheck (SeSinglePrivilegeCheck env (RequestorMode Irp)),
            E_IoCompleteRequest
              (if SeSinglePrivilegeCheck env (RequestorMode Irp) then STATUS_UNSUCCESSFUL
               else STATUS_ACCESS_DENIED)]\<rparr>)"
  by (auto simp: DrvCreate_def call_defs Let_def)

lemma create_events_HvVmxInitialize:
  "E_HvVmxInitialize g b \<in> set (create_events pc len gs hv dbg) \<longleftrightarrow> g = gs \<and> b = hv"
  by (auto simp: create_events_def)

lemma create_events_DebuggerInitialize:
  "E_DebuggerInitialize b \<in> set (create_events pc len gs hv dbg) \<longleftrightarrow> hv \<and> b = dbg"
  by (auto simp: create_events_def)

lemma create_events_once:
  "length (filter is_HvVmxInitialize (create_events pc len gs hv dbg)) = 1"
  by (simp add: create_events_def)

lemma create_events_shape:
  "\<exists>pre post. create_events pc len gs hv dbg =
     pre @ [E_RtlZeroMemory len, E_HvVmxInitialize gs hv] @ post"
proof -
  have "create_events pc len gs hv dbg =
          [E_SeSinglePrivilegeCheck True, E_Log LogInfo, E_KeQueryActiveProcessorCount pc] @
          [E_RtlZeroMemory len, E_HvVmxInitialize gs hv] @ drop 5 (create_events pc len gs hv dbg)"
    by (simp add: create_events_def)
  then show ?thesis by blast
qed

lemma ioctl_switch_trace:
  "\<exists>rest. trace (snd (snd (ioctl_switch env s Irp))) = trace s @ rest"
  by (auto simp: ioctl_switch_def call_defs split: switch_splits)

lemma ioctl_switch_handle:
  "g_HandleInUse (snd (snd (ioctl_switch env s Irp))) = g_HandleInUse s"
  by (auto simp: ioctl_switch_def call_defs split: switch_splits)

lemma DrvDispatchIoControl_allowed:
  assumes "g_AllowIOCTLFromUsermode s"
  shows "DrvDispatchIoControl env s Irp =
     (case ioctl_switch env
             (emit E_IoGetCurrentIrpStackLocation (call_PoolManagerCheckAndPerformAllocation env s))
             Irp of
        (st, Irp1, s1) \<Rightarrow> if st \<noteq> STATUS_PENDING then complete st s1 Irp1 else (st, Irp1, s1))"
  using assms by (simp add: DrvDispatchIoControl_def Let_def)

lemma DrvDispatchIoControl_disallowed:
  "\<not> g_AllowIOCTLFromUsermode s \<Longrightarrow>
   DrvDispatchIoControl env s Irp =
     (STATUS_SUCCESS,
      Irp\<lparr>IoStatus_Status := STATUS_SUCCESS, IoStatus_Information := 0,
          Completed := Suc (Completed Irp)\<rparr>,
      s\<lparr>trace := trace s @ [E_IoCompleteRequest STATUS_SUCCESS]\<rparr>)"
  by (simp add: DrvDispatchIoControl_def complete_def emit_def status_defs)

lemma DrvDispatchIoControl_handle:
  "g_HandleInUse (snd (snd (DrvDispatchIoControl env s Irp))) = g_HandleInUse s"
proof (cases "g_AllowIOCTLFromUsermode s")
  case False
  then show ?thesis by (simp add: DrvDispatchIoControl_disallowed)
next
  case True
  define s0 where
    "s0 = emit E_IoGetCurrentIrpStackLocation (call_PoolManagerCheckAndPerformAllocation env s)"
  have h0: "g_HandleInUse s0 = g_HandleInUse s"
    by (simp add: s0_def call_defs)
  obtain st Irp1 s1 where sw: "ioctl_switch env s0 Irp = (st, Irp1, s1)"
    by (cases "ioctl_switch env s0 Irp") auto
  have h1: "g_HandleInUse s1 = g_HandleInUse s0"
    using ioctl_switch_handle [of env s0 Irp] sw by simp
  have "DrvDispatchIoControl env s Irp =
          (if st \<noteq> STATUS_PENDING then complete st s1 Irp1 else (st, Irp1, s1))"
    using sw by (simp add: DrvDispatchIoControl_allowed [OF True] s0_def)
  then show ?thesis
    using h0 h1 by (simp add: complete_def emit_def)
qed

lemma DrvDispatchIoControl_drains_first:
  assumes "g_AllowIOCTLFromUsermode s"
  shows "\<exists>rest. new_events s (snd (snd (DrvDispatchIoControl env s Irp))) =
           E_PoolManagerCheckAndPerformAllocation # E_IoGetCurrentIrpStackLocation # rest"
proof -
  define s0 where
    "s0 = emit E_IoGetCurrentIrpStackLocation (call_PoolManagerCheckAndPerformAllocation env s)"
  have t0: "trace s0 = trace s @
              [E_PoolManagerCheckAndPerformAllocation, E_IoGetCurrentIrpStackLocation]"
    by (simp add: s0_def call_defs)
  obtain st Irp1 s1 where sw: "ioctl_switch env s0 Irp = (st, Irp1, s1)"
    by (cases "ioctl_switch env s0 Irp") auto
  obtain rest where t1: "trace s1 = trace s0 @ rest"
    using ioctl_switch_trace [of env s0 Irp] sw by auto
  have "DrvDispatchIoControl env s Irp =
          (if st \<noteq> STATUS_PENDING then complete st s1 Irp1 else (st, Irp1, s1))"
    using sw by (simp add: DrvDispatchIoControl_allowed [OF assms] s0_def)
  then show ?thesis
    using t0 t1 by (simp add: complete_def emit_def new_events_def)
qed

lemma new_events_append [simp]: "trace s' = trace s @ ev \<Longrightarrow> new_events s s' = ev"
  by (simp add: new_events_def)

lemma DrvClose_clears: "\<not> g_HandleInUse (snd (snd (DrvClose s Irp)))"
  by (simp add: DrvClose_def call_defs)

lemma MajorFunction_keeps_handle:
  "mj \<noteq> IRP_MJ_CLOSE \<Longrightarrow> g_HandleInUse s \<Longrightarrow>
   g_HandleInUse (snd (snd (MajorFunction mj env s Irp)))"
  by (simp add: MajorFunction_def DrvCreate_rejected DrvDispatchIoControl_handle
        DrvRead_def DrvWrite_def DrvUnsupported_def IopInvalidDeviceRequest_def
        complete_def emit_def)

lemma MajorFunction_sets_handle:
  "\<not> g_HandleInUse s \<Longrightarrow> g_HandleInUse (snd (snd (MajorFunction mj env s Irp))) \<Longrightarrow>
   mj = IRP_MJ_CREATE"
  by (simp add: MajorFunction_def DrvClose_def DrvDispatchIoControl_handle
        DrvRead_def DrvWrite_def DrvUnsupported_def IopInvalidDeviceRequest_def
        complete_def emit_def split: if_splits)

lemma MajorFunction_keeps_disallowed:
  "mj \<noteq> IRP_MJ_CREATE \<Longrightarrow> \<not> g_AllowIOCTLFromUsermode s \<Longrightarrow>
   \<not> g_AllowIOCTLFromUsermode (snd (snd (MajorFunction mj env s Irp)))"
  by (simp add: MajorFunction_def DrvClose_def DrvDispatchIoControl_disallowed
        DrvRead_def DrvWrite_def DrvUnsupported_def IopInvalidDeviceRequest_def
        complete_def emit_def)

lemma run_keeps_disallowed:
  "\<forall>r \<in> set rs. fst (snd r) \<noteq> IRP_MJ_CREATE \<Longrightarrow> \<not> g_AllowIOCTLFromUsermode s \<Longrightarrow>
   \<not> g_AllowIOCTLFromUsermode (run rs s)"
proof (induction rs arbitrary: s)
  case Nil
  then show ?case by simp
next
  case (Cons r rs)
  obtain env mj Irp where r: "r = (env, mj, Irp)" by (cases r) auto
  have "mj \<noteq> IRP_MJ_CREATE" using Cons.prems(1) r by simp
  then have "\<not> g_AllowIOCTLFromUsermode (snd (snd (MajorFunction mj env s Irp)))"
    using Cons.prems(2) by (rule MajorFunction_keeps_disallowed)
  moreover have "\<forall>r \<in> set rs. fst (snd r) \<noteq> IRP_MJ_CREATE" using Cons.prems(1) by simp
  ultimately show ?case using Cons.IH r by simp
qed

lemma DrvCreate_allows:
  "g_AllowIOCTLFromUsermode (snd (snd (DrvCreate env s Irp))) \<longleftrightarrow>
     g_AllowIOCTLFromUsermode s \<or> SeSinglePrivilegeCheck env (RequestorMode Irp) \<and> \<not> g_HandleInUse s"
proof (cases "SeSinglePrivilegeCheck env (RequestorMode Irp) \<and> \<not> g_HandleInUse s")
  case True
  then show ?thesis using DrvCreate_admitted [of env Irp s] by auto
next
  case False
  then have "\<not> SeSinglePrivilegeCheck env (RequestorMode Irp) \<or> g_HandleInUse s" by blast
  from DrvCreate_rejected [OF this] False show ?thesis by auto
qed

subsection \<open>The claims about the driver shell\<close>

text \<open>
  C1, as the spec has it: every invocation of \<open>DrvDispatchIoControl\<close> calls the pool
  drain. It does not: with \<open>g_AllowIOCTLFromUsermode\<close> false the dispatcher completes
  the IRP and calls nothing else.
\<close>

theorem drain_counterexample:
  "\<not> g_AllowIOCTLFromUsermode sample_state \<and>
   new_events sample_state
     (snd (snd (DrvDispatchIoControl sample_env sample_state
                  (sample_irp KernelMode IOCTL_TERMINATE_VMX)))) =
     [E_IoCompleteRequest STATUS_SUCCESS] \<and>
   E_PoolManagerCheckAndPerformAllocation \<notin>
     set (new_events sample_state
            (snd (snd (DrvDispatchIoControl sample_env sample_state
                         (sample_irp KernelMode IOCTL_TERMINATE_VMX)))))"
  by (simp add: DrvDispatchIoControl_disallowed sample_state_def new_events_def)

text \<open>
  C1, amended. While \<open>g_AllowIOCTLFromUsermode\<close> is true, the dispatcher first calls
  \<open>PoolManagerCheckAndPerformAllocation\<close> on the guest state and collaborators it was
  entered with, then fetches the stack location that holds the control code, and only
  then runs the \<open>switch\<close> on the control code, on the state the drain has left. While
  the flag is false, the dispatcher only completes the IRP with \<open>STATUS_SUCCESS\<close>.
\<close>

theorem drain_before_control_code:
  "(g_AllowIOCTLFromUsermode s \<longrightarrow>
      DrvDispatchIoControl env s Irp =
        (case ioctl_switch env
                (s\<lparr>g_GuestState := fst (PoolManagerCheckAndPerformAllocation env (world s)),
                   collaborators := snd (PoolManagerCheckAndPerformAllocation env (world s)),
                   trace := trace s @
                     [E_PoolManagerCheckAndPerformAllocation, E_IoGetCurrentIrpStackLocation]\<rparr>)
                Irp of
           (st, Irp1, s1) \<Rightarrow>
             if st \<noteq> STATUS_PENDING then complete st s1 Irp1 else (st, Irp1, s1)) \<and>
      (\<exists>rest. new_events s (snd (snd (DrvDispatchIoControl env s Irp))) =
         E_PoolManagerCheckAndPerformAllocation # E_IoGetCurrentIrpStackLocation # rest)) \<and>
   (\<not> g_AllowIOCTLFromUsermode s \<longrightarrow>
      new_events s (snd (snd (DrvDispatchIoControl env s Irp))) =
        [E_IoCompleteRequest STATUS_SUCCESS] \<and>
      world (snd (snd (DrvDispatchIoControl env s Irp))) = world s)"
proof (intro conjI impI)
  assume a: "g_AllowIOCTLFromUsermode s"
  have "emit E_IoGetCurrentIrpStackLocation (call_PoolManagerCheckAndPerformAllocation env s) =
          s\<lparr>g_GuestState := fst (PoolManagerCheckAndPerformAllocation env (world s)),
            collaborators := snd (PoolManagerCheckAndPerformAllocation env (world s)),
            trace := trace s @
              [E_PoolManagerCheckAndPerformAllocation, E_IoGetCurrentIrpStackLocation]\<rparr>"
    by (simp add: call_PoolManagerCheckAndPerformAllocation_def emit_def set_world_def)
  then show "DrvDispatchIoControl env s Irp =
        (case ioctl_switch env
                (s\<lparr>g_GuestState := fst (PoolManagerCheckAndPerformAllocation env (world s)),
                   collaborators := snd (PoolManagerCheckAndPerformAllocation env (world s)),
                   trace := trace s @
                     [E_PoolManagerCheckAndPerformAllocation, E_IoGetCurrentIrpStackLocation]\<rparr>)
                Irp of
           (st, Irp1, s1) \<Rightarrow>
             if st \<noteq> STATUS_PENDING then complete st s1 Irp1 else (st, Irp1, s1))"
    using DrvDispatchIoControl_allowed [OF a, of env Irp] by simp
  show "\<exists>rest. new_events s (snd (snd (DrvDispatchIoControl env s Irp))) =
         E_PoolManagerCheckAndPerformAllocation # E_IoGetCurrentIrpStackLocation # rest"
    using a by (rule DrvDispatchIoControl_drains_first)
next
  assume d: "\<not> g_AllowIOCTLFromUsermode s"
  show "new_events s (snd (snd (DrvDispatchIoControl env s Irp))) =
        [E_IoCompleteRequest STATUS_SUCCESS]"
    by (simp add: DrvDispatchIoControl_disallowed [OF d])
  show "world (snd (snd (DrvDispatchIoControl env s Irp))) = world s"
    by (simp add: DrvDispatchIoControl_disallowed [OF d] world_def)
qed

theorem drain_before_control_code_witness:
  "g_AllowIOCTLFromUsermode allowed_state \<and>
   collaborators allowed_state = 0 \<and>
   collaborators
     (snd (snd (DrvDispatchIoControl sample_env allowed_state
                  (sample_irp UserMode (IOCTL_OTHER 5))))) = 1 \<and>
   (\<exists>rest. new_events allowed_state
      (snd (snd (DrvDispatchIoControl sample_env allowed_state
                   (sample_irp UserMode (IOCTL_OTHER 5))))) =
      E_PoolManagerCheckAndPerformAllocation # E_IoGetCurrentIrpStackLocation # rest) \<and>
   \<not> g_AllowIOCTLFromUsermode sample_state \<and>
   new_events sample_state
     (snd (snd (DrvDispatchIoControl sample_env sample_state
                  (sample_irp UserMode (IOCTL_OTHER 5))))) =
     [E_IoCompleteRequest STATUS_SUCCESS] \<and>
   collaborators
     (snd (snd (DrvDispatchIoControl sample_env sample_state
                  (sample_irp UserMode (IOCTL_OTHER 5))))) = 0"
proof -
  have a: "g_AllowIOCTLFromUsermode allowed_state" "collaborators allowed_state = 0"
    by (simp_all add: sample_defs)
  have d: "\<not> g_AllowIOCTLFromUsermode sample_state" "world sample_state = ([7, 9, 7, 9], 0)"
    by (simp_all add: sample_defs world_def)
  note on = drain_before_control_code
              [of allowed_state sample_env "sample_irp UserMode (IOCTL_OTHER 5)"]
  note off = drain_before_control_code
              [of sample_state sample_env "sample_irp UserMode (IOCTL_OTHER 5)"]
  have eq: "DrvDispatchIoControl sample_env allowed_state (sample_irp UserMode (IOCTL_OTHER 5)) =
        (case ioctl_switch sample_env
                (allowed_state
                   \<lparr>g_GuestState :=
                      fst (PoolManagerCheckAndPerformAllocation sample_env (world allowed_state)),
                    collaborators :=
                      snd (PoolManagerCheckAndPerformAllocation sample_env (world allowed_state)),
                    trace := trace allowed_state @
                     [E_PoolManagerCheckAndPerformAllocation, E_IoGetCurrentIrpStackLocation]\<rparr>)
                (sample_irp UserMode (IOCTL_OTHER 5)) of
           (st, Irp1, s1) \<Rightarrow>
             if st \<noteq> STATUS_PENDING then complete st s1 Irp1 else (st, Irp1, s1))"
    using on a(1) by blast
  have c1: "collaborators
     (snd (snd (DrvDispatchIoControl sample_env allowed_state
                  (sample_irp UserMode (IOCTL_OTHER 5))))) = 1"
    unfolding eq
    by (simp add: ioctl_switch_def call_defs sample_defs status_defs)
  have ev: "\<exists>rest. new_events allowed_state
      (snd (snd (DrvDispatchIoControl sample_env allowed_state
                   (sample_irp UserMode (IOCTL_OTHER 5))))) =
      E_PoolManagerCheckAndPerformAllocation # E_IoGetCurrentIrpStackLocation # rest"
    using on a(1) by blast
  have c0: "collaborators
     (snd (snd (DrvDispatchIoControl sample_env sample_state
                  (sample_irp UserMode (IOCTL_OTHER 5))))) = 0"
    using off d by (simp add: world_def)
  have e0: "new_events sample_state
     (snd (snd (DrvDispatchIoControl sample_env sample_state
                  (sample_irp UserMode (IOCTL_OTHER 5))))) =
     [E_IoCompleteRequest STATUS_SUCCESS]"
    using off d(1) by blast
  show ?thesis using a d(1) c1 ev c0 e0 by blast
qed

text \<open>
  C2, as stated: with \<open>g_HandleInUse\<close> true every further \<open>DrvCreate\<close> returns
  \<open>STATUS_UNSUCCESSFUL\<close>. The privilege check comes first, so a requestor without the
  debug privilege gets \<open>STATUS_ACCESS_DENIED\<close>.
\<close>

theorem second_handle_counterexample:
  "g_HandleInUse in_use_state \<and>
   fst (DrvCreate sample_env in_use_state (sample_irp UserMode (IOCTL_OTHER 0))) =
     STATUS_ACCESS_DENIED \<and>
   fst (DrvCreate sample_env in_use_state (sample_irp UserMode (IOCTL_OTHER 0))) \<noteq>
     STATUS_UNSUCCESSFUL"
  by (simp add: DrvCreate_rejected sample_defs status_defs)

text \<open>
  C2, amended. With \<open>g_HandleInUse\<close> true, a further \<open>DrvCreate\<close> returns
  \<open>STATUS_UNSUCCESSFUL\<close> to a requestor that holds the debug privilege and
  \<open>STATUS_ACCESS_DENIED\<close> to one that does not; either way it only checks the
  privilege and completes the IRP, and the driver state is unchanged. No handler but
  \<open>DrvClose\<close> clears \<open>g_HandleInUse\<close>; \<open>DrvClose\<close> clears it, and a privileged
  \<open>DrvCreate\<close> after it goes on to initialise the hypervisor.
\<close>

theorem single_handle_in_use:
  assumes "g_HandleInUse s"
  shows
  "DrvCreate env s Irp =
     (if SeSinglePrivilegeCheck env (RequestorMode Irp) then STATUS_UNSUCCESSFUL
      else STATUS_ACCESS_DENIED,
      Irp\<lparr>IoStatus_Status :=
            (if SeSinglePrivilegeCheck env (RequestorMode Irp) then STATUS_UNSUCCESSFUL
             else STATUS_ACCESS_DENIED),
          IoStatus_Information := 0, Completed := Suc (Completed Irp)\<rparr>,
      s\<lparr>trace := trace s @
           [E_SeSinglePrivilegeCheck (SeSinglePrivilegeCheck env (RequestorMode Irp)),
            E_IoCompleteRequest
              (if SeSinglePrivilegeCheck env (RequestorMode Irp) then STATUS_UNSUCCESSFUL
               else STATUS_ACCESS_DENIED)]\<rparr>) \<and>
   (mj \<noteq> IRP_MJ_CLOSE \<longrightarrow> g_HandleInUse (snd (snd (MajorFunction mj env1 s Irp1)))) \<and>
   \<not> g_HandleInUse (snd (snd (DrvClose s Irp2))) \<and>
   (SeSinglePrivilegeCheck env3 (RequestorMode Irp3) \<longrightarrow>
      (\<exists>gs ok. E_HvVmxInitialize gs ok \<in>
         set (new_events (snd (snd (DrvClose s Irp2)))
                (snd (snd (DrvCreate env3 (snd (snd (DrvClose s Irp2))) Irp3))))))"
proof (intro conjI impI)
  show "DrvCreate env s Irp =
     (if SeSinglePrivilegeCheck env (RequestorMode Irp) then STATUS_UNSUCCESSFUL
      else STATUS_ACCESS_DENIED,
      Irp\<lparr>IoStatus_Status :=
            (if SeSinglePrivilegeCheck env (RequestorMode Irp) then STATUS_UNSUCCESSFUL
             else STATUS_ACCESS_DENIED),
          IoStatus_Information := 0, Completed := Suc (Completed Irp)\<rparr>,
      s\<lparr>trace := trace s @
           [E_SeSinglePrivilegeCheck (SeSinglePrivilegeCheck env (RequestorMode Irp)),
            E_IoCompleteRequest
              (if SeSinglePrivilegeCheck env (RequestorMode Irp) then STATUS_UNSUCCESSFUL
               else STATUS_ACCESS_DENIED)]\<rparr>)"
    using assms by (intro DrvCreate_rejected) simp
next
  assume "mj \<noteq> IRP_MJ_CLOSE"
  then show "g_HandleInUse (snd (snd (MajorFunction mj env1 s Irp1)))"
    using assms by (rule MajorFunction_keeps_handle)
next
  show "\<not> g_HandleInUse (snd (snd (DrvClose s Irp2)))"
    by (rule DrvClose_clears)
next
  assume p: "SeSinglePrivilegeCheck env3 (RequestorMode Irp3)"
  define sc where "sc = snd (snd (DrvClose s Irp2))"
  have "\<not> g_HandleInUse sc" unfolding sc_def by (rule DrvClose_clears)
  with p obtain gs hv dbg where
    "trace (snd (snd (DrvCreate env3 sc Irp3))) =
       trace sc @
       create_events (KeQueryActiveProcessorCount env3)
         (size_in_bytes (SIZEOF_VIRTUAL_MACHINE_STATE env3) (KeQueryActiveProcessorCount env3))
         gs hv dbg"
    using DrvCreate_admitted [of env3 Irp3 sc] by blast
  then have "E_HvVmxInitialize gs hv \<in> set (new_events sc (snd (snd (DrvCreate env3 sc Irp3))))"
    by (simp add: create_events_HvVmxInitialize)
  then show "\<exists>gs ok. E_HvVmxInitialize gs ok \<in>
         set (new_events (snd (snd (DrvClose s Irp2)))
                (snd (snd (DrvCreate env3 (snd (snd (DrvClose s Irp2))) Irp3))))"
    unfolding sc_def by blast
qed

theorem single_handle_in_use_witness:
  "g_HandleInUse in_use_state \<and>
   fst (DrvCreate sample_env in_use_state (sample_irp KernelMode (IOCTL_OTHER 0))) =
     STATUS_UNSUCCESSFUL \<and>
   snd (snd (DrvCreate sample_env in_use_state (sample_irp KernelMode (IOCTL_OTHER 0)))) =
     in_use_state\<lparr>trace :=
       [E_SeSinglePrivilegeCheck True, E_IoCompleteRequest STATUS_UNSUCCESSFUL]\<rparr> \<and>
   IRP_MJ_DEVICE_CONTROL \<noteq> IRP_MJ_CLOSE \<and>
   g_HandleInUse
     (snd (snd (MajorFunction IRP_MJ_DEVICE_CONTROL sample_env in_use_state
                  (sample_irp UserMode IOCTL_TERMINATE_VMX)))) \<and>
   \<not> g_HandleInUse (snd (snd (DrvClose in_use_state (sample_irp UserMode (IOCTL_OTHER 0))))) \<and>
   SeSinglePrivilegeCheck sample_env (RequestorMode (sample_irp KernelMode (IOCTL_OTHER 0))) \<and>
   (\<exists>gs ok. E_HvVmxInitialize gs ok \<in>
      set (new_events (snd (snd (DrvClose in_use_state (sample_irp UserMode (IOCTL_OTHER 0)))))
             (snd (snd (DrvCreate sample_env
                          (snd (snd (DrvClose in_use_state (sample_irp UserMode (IOCTL_OTHER 0)))))
                          (sample_irp KernelMode (IOCTL_OTHER 0)))))))"
proof -
  have u: "g_HandleInUse in_use_state" by (simp add: sample_defs)
  have p: "SeSinglePrivilegeCheck sample_env (RequestorMode (sample_irp KernelMode (IOCTL_OTHER 0)))"
    by (simp add: sample_defs)
  have t: "trace in_use_state = []" by (simp add: sample_defs)
  note th = single_handle_in_use [OF u, of sample_env "sample_irp KernelMode (IOCTL_OTHER 0)"
              IRP_MJ_DEVICE_CONTROL sample_env "sample_irp UserMode IOCTL_TERMINATE_VMX"
              "sample_irp UserMode (IOCTL_OTHER 0)" sample_env
              "sample_irp KernelMode (IOCTL_OTHER 0)"]
  have m: "IRP_MJ_DEVICE_CONTROL \<noteq> IRP_MJ_CLOSE" by (simp add: mj_defs)
  show ?thesis using th u p t m by simp
qed

text \<open>
  C3. A \<open>DrvCreate\<close> call starts an initialise cycle, that is, it calls
  \<open>HvVmxInitialize\<close>, exactly when the requestor is privileged and the handle is free.
  Such a call makes one call of \<open>HvVmxInitialize\<close>, right after the \<open>RtlZeroMemory\<close>
  over \<open>sizeof(VIRTUAL_MACHINE_STATE) * ProcessorCount\<close> bytes, and hands it the array
  that \<open>RtlZeroMemory\<close> has left: every byte of the array within that range is zero.
  When the array has just that many bytes, as \<open>DriverEntry\<close> allocates it for the same
  processor count, all of it is zero and nothing is written past it; a shorter array
  is overrun. With a count below \<open>2^31\<close> and a product below \<open>2^64\<close> the range is
  the product, and it covers every byte of the element of every active processor. A
  \<open>DrvCreate\<close> that fails one of the two checks leaves \<open>g_GuestState\<close> as it was.
\<close>

theorem DrvCreate_zeroes_before_HvVmxInitialize:
  "((\<exists>gs ok. E_HvVmxInitialize gs ok \<in> set (new_events s (snd (snd (DrvCreate env s Irp)))))
      \<longleftrightarrow> SeSinglePrivilegeCheck env (RequestorMode Irp) \<and> \<not> g_HandleInUse s) \<and>
   (SeSinglePrivilegeCheck env (RequestorMode Irp) \<and> \<not> g_HandleInUse s \<longrightarrow>
      (\<exists>pre post.
         new_events s (snd (snd (DrvCreate env s Irp))) =
           pre @
           [E_RtlZeroMemory
              (size_in_bytes (SIZEOF_VIRTUAL_MACHINE_STATE env) (KeQueryActiveProcessorCount env)),
            E_HvVmxInitialize (fst (world_at_HvVmxInitialize env s))
              (fst (HvVmxInitialize env (world_at_HvVmxInitialize env s)))] @ post) \<and>
      length (filter is_HvVmxInitialize (new_events s (snd (snd (DrvCreate env s Irp))))) = 1 \<and>
      (\<forall>j. j < size_in_bytes (SIZEOF_VIRTUAL_MACHINE_STATE env) (KeQueryActiveProcessorCount env) \<and>
           j < length (fst (world_at_HvVmxInitialize env s)) \<longrightarrow>
           fst (world_at_HvVmxInitialize env s) ! j = 0) \<and>
      (length (fst (world_at_HvVmxInitialize env s)) =
         size_in_bytes (SIZEOF_VIRTUAL_MACHINE_STATE env) (KeQueryActiveProcessorCount env) \<longrightarrow>
         fst (world_at_HvVmxInitialize env s) =
           replicate (length (fst (world_at_HvVmxInitialize env s))) 0 \<and>
         pool_overrun (snd (snd (DrvCreate env s Irp))) = pool_overrun s) \<and>
      (pool_overrun (snd (snd (DrvCreate env s Irp))) \<longleftrightarrow>
         pool_overrun s \<or>
         length (fst (world_at_HvVmxInitialize env s)) <
           size_in_bytes (SIZEOF_VIRTUAL_MACHINE_STATE env) (KeQueryActiveProcessorCount env)) \<and>
      (KeQueryActiveProcessorCount env < 2 ^ 31 \<and>
       unat (SIZEOF_VIRTUAL_MACHINE_STATE env) * unat (KeQueryActiveProcessorCount env) < 2 ^ 64 \<longrightarrow>
         size_in_bytes (SIZEOF_VIRTUAL_MACHINE_STATE env) (KeQueryActiveProcessorCount env) =
           unat (SIZEOF_VIRTUAL_MACHINE_STATE env) * unat (KeQueryActiveProcessorCount env) \<and>
         (\<forall>i k. i < unat (KeQueryActiveProcessorCount env) \<and>
                k < unat (SIZEOF_VIRTUAL_MACHINE_STATE env) \<and>
                i * unat (SIZEOF_VIRTUAL_MACHINE_STATE env) + k <
                  length (fst (world_at_HvVmxInitialize env s)) \<longrightarrow>
                fst (world_at_HvVmxInitialize env s) !
                  (i * unat (SIZEOF_VIRTUAL_MACHINE_STATE env) + k) = 0))) \<and>
   (\<not> SeSinglePrivilegeCheck env (RequestorMode Irp) \<or> g_HandleInUse s \<longrightarrow>
      g_GuestState (snd (snd (DrvCreate env s Irp))) = g_GuestState s \<and>
      pool_overrun (snd (snd (DrvCreate env s Irp))) = pool_overrun s)"
proof -
  define len where
    "len = size_in_bytes (SIZEOF_VIRTUAL_MACHINE_STATE env) (KeQueryActiveProcessorCount env)"
  define gs where "gs = fst (world_at_HvVmxInitialize env s)"
  define hv where "hv = fst (HvVmxInitialize env (world_at_HvVmxInitialize env s))"
  define ev where "ev = new_events s (snd (snd (DrvCreate env s Irp)))"
  have z: "\<forall>j. j < len \<and> j < length gs \<longrightarrow> gs ! j = 0"
    unfolding len_def gs_def by (simp add: world_at_HvVmxInitialize_zeroes)
  have rejected:
    "g_GuestState (snd (snd (DrvCreate env s Irp))) = g_GuestState s \<and>
     pool_overrun (snd (snd (DrvCreate env s Irp))) = pool_overrun s \<and>
     (\<forall>g b. E_HvVmxInitialize g b \<notin> set ev)"
    if r: "\<not> SeSinglePrivilegeCheck env (RequestorMode Irp) \<or> g_HandleInUse s"
    unfolding ev_def by (simp add: DrvCreate_rejected [OF r])
  have admitted:
    "(\<exists>pre post. ev = pre @ [E_RtlZeroMemory len, E_HvVmxInitialize gs hv] @ post) \<and>
     length (filter is_HvVmxInitialize ev) = 1 \<and>
     E_HvVmxInitialize gs hv \<in> set ev \<and>
     (pool_overrun (snd (snd (DrvCreate env s Irp))) \<longleftrightarrow> pool_overrun s \<or> length gs < len)"
    if p: "SeSinglePrivilegeCheck env (RequestorMode Irp)" and f: "\<not> g_HandleInUse s"
  proof -
    obtain dbg where
      t: "trace (snd (snd (DrvCreate env s Irp))) =
            trace s @ create_events (KeQueryActiveProcessorCount env) len gs hv dbg" and
      o: "pool_overrun (snd (snd (DrvCreate env s Irp))) = (pool_overrun s \<or> length gs < len)"
      using DrvCreate_admitted_values [OF p f] unfolding len_def gs_def hv_def by blast
    have e: "ev = create_events (KeQueryActiveProcessorCount env) len gs hv dbg"
      unfolding ev_def using t by simp
    show ?thesis
      unfolding e
      using o create_events_shape [of "KeQueryActiveProcessorCount env" len gs hv dbg]
      by (simp add: create_events_once create_events_HvVmxInitialize)
  qed
  have whole: "gs = replicate (length gs) 0" if "length gs = len"
    using z that zero_prefix_all [of len gs] by simp
  have exact:
    "len = unat (SIZEOF_VIRTUAL_MACHINE_STATE env) * unat (KeQueryActiveProcessorCount env) \<and>
     (\<forall>i k. i < unat (KeQueryActiveProcessorCount env) \<and>
            k < unat (SIZEOF_VIRTUAL_MACHINE_STATE env) \<and>
            i * unat (SIZEOF_VIRTUAL_MACHINE_STATE env) + k < length gs \<longrightarrow>
            gs ! (i * unat (SIZEOF_VIRTUAL_MACHINE_STATE env) + k) = 0)"
    if small: "KeQueryActiveProcessorCount env < 2 ^ 31" and
       fits: "unat (SIZEOF_VIRTUAL_MACHINE_STATE env) * unat (KeQueryActiveProcessorCount env) < 2 ^ 64"
  proof -
    have l: "len = unat (SIZEOF_VIRTUAL_MACHINE_STATE env) * unat (KeQueryActiveProcessorCount env)"
      unfolding len_def using small fits by (rule size_in_bytes_exact)
    have "i * sz + k < sz * n" if "i < n" "k < sz" for i k sz n :: nat
    proof -
      have "i * sz + k < Suc i * sz" using that(2) by simp
      also have "\<dots> \<le> n * sz" using that(1) by (intro mult_le_mono1) simp
      finally show ?thesis by (simp add: mult.commute)
    qed
    then show ?thesis using z l by auto
  qed
  show ?thesis
    unfolding len_def [symmetric] gs_def [symmetric] hv_def [symmetric] ev_def [symmetric]
    using z rejected admitted whole exact by blast
qed

theorem DrvCreate_zeroes_witness:
  "SeSinglePrivilegeCheck sample_env (RequestorMode (sample_irp KernelMode (IOCTL_OTHER 0))) \<and>
   \<not> g_HandleInUse sample_state \<and>
   g_GuestState sample_state = [7, 9, 7, 9] \<and>
   size_in_bytes (SIZEOF_VIRTUAL_MACHINE_STATE sample_env) (KeQueryActiveProcessorCount sample_env)
     = 4 \<and>
   fst (world_at_HvVmxInitialize sample_env sample_state) = [0, 0, 0, 0] \<and>
   (\<exists>pre post.
      new_events sample_state
        (snd (snd (DrvCreate sample_env sample_state (sample_irp KernelMode (IOCTL_OTHER 0))))) =
        pre @ [E_RtlZeroMemory 4, E_HvVmxInitialize [0, 0, 0, 0] True] @ post) \<and>
   length (filter is_HvVmxInitialize
      (new_events sample_state
         (snd (snd (DrvCreate sample_env sample_state (sample_irp KernelMode (IOCTL_OTHER 0)))))))
     = 1 \<and>
   \<not> pool_overrun
       (snd (snd (DrvCreate sample_env sample_state (sample_irp KernelMode (IOCTL_OTHER 0))))) \<and>
   g_HandleInUse in_use_state \<and>
   g_GuestState
     (snd (snd (DrvCreate sample_env in_use_state (sample_irp KernelMode (IOCTL_OTHER 0))))) =
     g_GuestState in_use_state"
proof -
  have p: "SeSinglePrivilegeCheck sample_env (RequestorMode (sample_irp KernelMode (IOCTL_OTHER 0)))"
    by (simp add: sample_defs)
  have f: "\<not> g_HandleInUse sample_state" and u: "g_HandleInUse in_use_state"
    and g: "g_GuestState sample_state = [7, 9, 7, 9]" and o: "\<not> pool_overrun sample_state"
    by (simp_all add: sample_defs)
  have n: "size_in_bytes (SIZEOF_VIRTUAL_MACHINE_STATE sample_env)
             (KeQueryActiveProcessorCount sample_env) = 4"
    by (simp add: sample_defs size_in_bytes_def)
  have w: "fst (world_at_HvVmxInitialize sample_env sample_state) = [0, 0, 0, 0]"
    by (simp add: world_at_HvVmxInitialize_def size_in_bytes_def RtlZeroMemory_def world_def
          sample_defs)
  have h: "fst (HvVmxInitialize sample_env (world_at_HvVmxInitialize sample_env sample_state))"
    by (simp add: sample_defs)
  note ok = DrvCreate_zeroes_before_HvVmxInitialize
              [of sample_state sample_env "sample_irp KernelMode (IOCTL_OTHER 0)"]
  note no = DrvCreate_zeroes_before_HvVmxInitialize
              [of in_use_state sample_env "sample_irp KernelMode (IOCTL_OTHER 0)"]
  have a: "\<exists>pre post.
      new_events sample_state
        (snd (snd (DrvCreate sample_env sample_state (sample_irp KernelMode (IOCTL_OTHER 0))))) =
        pre @ [E_RtlZeroMemory 4, E_HvVmxInitialize [0, 0, 0, 0] True] @ post"
    using ok p f h unfolding n w by simp
  have c: "length (filter is_HvVmxInitialize
      (new_events sample_state
         (snd (snd (DrvCreate sample_env sample_state (sample_irp KernelMode (IOCTL_OTHER 0)))))))
     = 1"
    using ok p f by blast
  have v: "\<not> pool_overrun
       (snd (snd (DrvCreate sample_env sample_state (sample_irp KernelMode (IOCTL_OTHER 0)))))"
    using ok p f o unfolding n w by simp
  have b: "g_GuestState
     (snd (snd (DrvCreate sample_env in_use_state (sample_irp KernelMode (IOCTL_OTHER 0))))) =
     g_GuestState in_use_state"
    using no u by blast
  show ?thesis using p f g n w a c v u b by blast
qed

text \<open>
  C4. A dispatch with control code \<open>IOCTL_TERMINATE_VMX\<close> while IOCTLs are allowed
  returns \<open>STATUS_SUCCESS\<close>. The calls it makes are the pool drain, the fetch of the
  stack location, \<open>HvTerminateVmx\<close> and the completion of the IRP, in this order, so
  \<open>HvTerminateVmx\<close> is called exactly once; and the guest state and the collaborators
  it leaves are those that \<open>HvTerminateVmx\<close> returns for what the pool drain returned.
\<close>

theorem terminate_request_calls_HvTerminateVmx_once:
  "g_AllowIOCTLFromUsermode s \<Longrightarrow> IoControlCode Irp = IOCTL_TERMINATE_VMX \<Longrightarrow>
   fst (DrvDispatchIoControl env s Irp) = STATUS_SUCCESS \<and>
   new_events s (snd (snd (DrvDispatchIoControl env s Irp))) =
     [E_PoolManagerCheckAndPerformAllocation, E_IoGetCurrentIrpStackLocation, E_HvTerminateVmx,
      E_IoCompleteRequest STATUS_SUCCESS] \<and>
   count_list (new_events s (snd (snd (DrvDispatchIoControl env s Irp)))) E_HvTerminateVmx = 1 \<and>
   world (snd (snd (DrvDispatchIoControl env s Irp))) =
     HvTerminateVmx env (PoolManagerCheckAndPerformAllocation env (world s)) \<and>
   g_HandleInUse (snd (snd (DrvDispatchIoControl env s Irp))) = g_HandleInUse s \<and>
   g_AllowIOCTLFromUsermode (snd (snd (DrvDispatchIoControl env s Irp)))"
  by (simp add: DrvDispatchIoControl_def ioctl_switch_def call_defs new_events_def status_defs)

theorem terminate_request_witness:
  "g_AllowIOCTLFromUsermode allowed_state \<and>
   IoControlCode (sample_irp UserMode IOCTL_TERMINATE_VMX) = IOCTL_TERMINATE_VMX \<and>
   fst (DrvDispatchIoControl sample_env allowed_state (sample_irp UserMode IOCTL_TERMINATE_VMX))
     = STATUS_SUCCESS \<and>
   count_list
     (new_events allowed_state
        (snd (snd (DrvDispatchIoControl sample_env allowed_state
                     (sample_irp UserMode IOCTL_TERMINATE_VMX)))))
     E_HvTerminateVmx = 1 \<and>
   world allowed_state = ([7, 9, 7, 9], 0) \<and>
   world (snd (snd (DrvDispatchIoControl sample_env allowed_state
                      (sample_irp UserMode IOCTL_TERMINATE_VMX)))) = ([7, 9, 7, 9], 2)"
  using terminate_request_calls_HvTerminateVmx_once
          [of allowed_state "sample_irp UserMode IOCTL_TERMINATE_VMX" sample_env]
  by (simp add: sample_defs world_def)

text \<open>
  C8. A \<open>DrvCreate\<close> by a requestor without the debug privilege returns
  \<open>STATUS_ACCESS_DENIED\<close>. It completes the IRP with this status and leaves the driver
  state as it was: \<open>g_HandleInUse\<close>, \<open>g_AllowIOCTLFromUsermode\<close>, \<open>g_GuestState\<close> and the
  collaborators are unchanged, and the only calls made are the privilege check and
  \<open>IoCompleteRequest\<close>, so the hypervisor is not initialised.
\<close>

theorem DrvCreate_without_privilege:
  "\<not> SeSinglePrivilegeCheck env (RequestorMode Irp) \<Longrightarrow>
   DrvCreate env s Irp =
     (STATUS_ACCESS_DENIED,
      Irp\<lparr>IoStatus_Status := STATUS_ACCESS_DENIED, IoStatus_Information := 0,
          Completed := Suc (Completed Irp)\<rparr>,
      s\<lparr>trace := trace s @
           [E_SeSinglePrivilegeCheck False, E_IoCompleteRequest STATUS_ACCESS_DENIED]\<rparr>)"
  by (simp add: DrvCreate_def call_defs)

theorem DrvCreate_without_privilege_witness:
  "\<not> SeSinglePrivilegeCheck sample_env (RequestorMode (sample_irp UserMode (IOCTL_OTHER 0))) \<and>
   fst (DrvCreate sample_env sample_state (sample_irp UserMode (IOCTL_OTHER 0)))
     = STATUS_ACCESS_DENIED \<and>
   snd (snd (DrvCreate sample_env sample_state (sample_irp UserMode (IOCTL_OTHER 0)))) =
     sample_state\<lparr>trace :=
       [E_SeSinglePrivilegeCheck False, E_IoCompleteRequest STATUS_ACCESS_DENIED]\<rparr>"
  using DrvCreate_without_privilege
          [of sample_env "sample_irp UserMode (IOCTL_OTHER 0)" sample_state]
  by (simp add: sample_defs)

text \<open>
  C9, as stated: once IOCTLs are disallowed the dispatcher does nothing until a
  successful \<open>DrvCreate\<close>. A \<open>DrvCreate\<close> whose \<open>HvVmxInitialize\<close> fails returns
  \<open>STATUS_UNSUCCESSFUL\<close> and has set \<open>g_AllowIOCTLFromUsermode\<close> all the same: the
  next dispatch drains the pool and runs \<open>HvTerminateVmx\<close>.
\<close>

theorem reenable_counterexample:
  "\<not> g_AllowIOCTLFromUsermode disallowed_state \<and>
   fst (DrvCreate failing_env disallowed_state (sample_irp KernelMode (IOCTL_OTHER 0))) =
     STATUS_UNSUCCESSFUL \<and>
   new_events failed_create_state
     (snd (snd (DrvDispatchIoControl sample_env failed_create_state
                  (sample_irp KernelMode IOCTL_TERMINATE_VMX)))) =
     [E_PoolManagerCheckAndPerformAllocation, E_IoGetCurrentIrpStackLocation, E_HvTerminateVmx,
      E_IoCompleteRequest STATUS_SUCCESS]"
proof -
  have a: "g_AllowIOCTLFromUsermode failed_create_state"
    by (simp add: failed_create_state_def failed_create_eq)
  have "IoControlCode (sample_irp KernelMode IOCTL_TERMINATE_VMX) = IOCTL_TERMINATE_VMX"
    by (simp add: sample_irp_def)
  then have "new_events failed_create_state
     (snd (snd (DrvDispatchIoControl sample_env failed_create_state
                  (sample_irp KernelMode IOCTL_TERMINATE_VMX)))) =
     [E_PoolManagerCheckAndPerformAllocation, E_IoGetCurrentIrpStackLocation, E_HvTerminateVmx,
      E_IoCompleteRequest STATUS_SUCCESS]"
    using a
    by (simp add: DrvDispatchIoControl_def ioctl_switch_def call_defs new_events_def status_defs)
  moreover have "\<not> g_AllowIOCTLFromUsermode disallowed_state"
    by (simp add: disallowed_state_eq)
  moreover have "fst (DrvCreate failing_env disallowed_state (sample_irp KernelMode (IOCTL_OTHER 0))) =
     STATUS_UNSUCCESSFUL"
    by (simp add: failed_create_eq)
  ultimately show ?thesis by blast
qed

text \<open>
  C9, amended. The request \<open>IOCTL_RETURN_IRP_PENDING_PACKETS_AND_DISALLOW_IOCTL\<close>
  returns \<open>STATUS_SUCCESS\<close> and clears \<open>g_AllowIOCTLFromUsermode\<close>. While the flag is
  clear, \<open>DrvDispatchIoControl\<close> returns \<open>STATUS_SUCCESS\<close>, calls nothing but
  \<open>IoCompleteRequest\<close> and changes no driver state; no handler other than
  \<open>DrvCreate\<close> sets the flag, over one request or a run of them; and \<open>DrvCreate\<close> sets
  it exactly when the requestor holds the debug privilege and the handle is not in
  use, whether the initialisation then succeeds or not.
\<close>

theorem disallowed_ioctl_is_no_op:
  "(g_AllowIOCTLFromUsermode s0 \<and>
    IoControlCode Irp0 = IOCTL_RETURN_IRP_PENDING_PACKETS_AND_DISALLOW_IOCTL \<longrightarrow>
      fst (DrvDispatchIoControl env0 s0 Irp0) = STATUS_SUCCESS \<and>
      \<not> g_AllowIOCTLFromUsermode (snd (snd (DrvDispatchIoControl env0 s0 Irp0)))) \<and>
   (\<not> g_AllowIOCTLFromUsermode s \<longrightarrow>
      DrvDispatchIoControl env s Irp =
        (STATUS_SUCCESS,
         Irp\<lparr>IoStatus_Status := STATUS_SUCCESS, IoStatus_Information := 0,
             Completed := Suc (Completed Irp)\<rparr>,
         s\<lparr>trace := trace s @ [E_IoCompleteRequest STATUS_SUCCESS]\<rparr>) \<and>
      (mj \<noteq> IRP_MJ_CREATE \<longrightarrow>
         \<not> g_AllowIOCTLFromUsermode (snd (snd (MajorFunction mj env1 s Irp1)))) \<and>
      ((\<forall>r \<in> set rs. fst (snd r) \<noteq> IRP_MJ_CREATE) \<longrightarrow> \<not> g_AllowIOCTLFromUsermode (run rs s)) \<and>
      (g_AllowIOCTLFromUsermode (snd (snd (DrvCreate env2 s Irp2))) \<longleftrightarrow>
         SeSinglePrivilegeCheck env2 (RequestorMode Irp2) \<and> \<not> g_HandleInUse s))"
proof (intro conjI impI)
  assume a: "g_AllowIOCTLFromUsermode s0 \<and>
    IoControlCode Irp0 = IOCTL_RETURN_IRP_PENDING_PACKETS_AND_DISALLOW_IOCTL"
  then show "fst (DrvDispatchIoControl env0 s0 Irp0) = STATUS_SUCCESS"
    by (simp add: DrvDispatchIoControl_def ioctl_switch_def call_defs status_defs)
  from a show "\<not> g_AllowIOCTLFromUsermode (snd (snd (DrvDispatchIoControl env0 s0 Irp0)))"
    by (simp add: DrvDispatchIoControl_def ioctl_switch_def call_defs status_defs)
next
  assume d: "\<not> g_AllowIOCTLFromUsermode s"
  then show "DrvDispatchIoControl env s Irp =
        (STATUS_SUCCESS,
         Irp\<lparr>IoStatus_Status := STATUS_SUCCESS, IoStatus_Information := 0,
             Completed := Suc (Completed Irp)\<rparr>,
         s\<lparr>trace := trace s @ [E_IoCompleteRequest STATUS_SUCCESS]\<rparr>)"
    by (rule DrvDispatchIoControl_disallowed)
  show "g_AllowIOCTLFromUsermode (snd (snd (DrvCreate env2 s Irp2))) \<longleftrightarrow>
         SeSinglePrivilegeCheck env2 (RequestorMode Irp2) \<and> \<not> g_HandleInUse s"
    using d by (simp add: DrvCreate_allows)
  {
    assume "mj \<noteq> IRP_MJ_CREATE"
    then show "\<not> g_AllowIOCTLFromUsermode (snd (snd (MajorFunction mj env1 s Irp1)))"
      using d by (rule MajorFunction_keeps_disallowed)
  }
  {
    assume "\<forall>r \<in> set rs. fst (snd r) \<noteq> IRP_MJ_CREATE"
    then show "\<not> g_AllowIOCTLFromUsermode (run rs s)"
      using d by (rule run_keeps_disallowed)
  }
qed

theorem disallowed_ioctl_witness:
  "g_AllowIOCTLFromUsermode allowed_state \<and>
   IoControlCode (sample_irp UserMode IOCTL_RETURN_IRP_PENDING_PACKETS_AND_DISALLOW_IOCTL) =
     IOCTL_RETURN_IRP_PENDING_PACKETS_AND_DISALLOW_IOCTL \<and>
   \<not> g_AllowIOCTLFromUsermode
       (snd (snd (DrvDispatchIoControl sample_env allowed_state
          (sample_irp UserMode IOCTL_RETURN_IRP_PENDING_PACKETS_AND_DISALLOW_IOCTL)))) \<and>
   \<not> g_AllowIOCTLFromUsermode disallowed_state \<and>
   fst (DrvDispatchIoControl sample_env disallowed_state (sample_irp UserMode IOCTL_TERMINATE_VMX))
     = STATUS_SUCCESS \<and>
   snd (snd (DrvDispatchIoControl sample_env disallowed_state
               (sample_irp UserMode IOCTL_TERMINATE_VMX))) =
     disallowed_state\<lparr>trace := trace disallowed_state @ [E_IoCompleteRequest STATUS_SUCCESS]\<rparr> \<and>
   IRP_MJ_CLOSE \<noteq> IRP_MJ_CREATE \<and>
   \<not> g_AllowIOCTLFromUsermode
       (snd (snd (MajorFunction IRP_MJ_CLOSE sample_env disallowed_state
                    (sample_irp UserMode (IOCTL_OTHER 0))))) \<and>
   \<not> g_AllowIOCTLFromUsermode
       (run [(sample_env, IRP_MJ_DEVICE_CONTROL, sample_irp UserMode IOCTL_TERMINATE_VMX),
             (sample_env, IRP_MJ_READ, sample_irp UserMode (IOCTL_OTHER 0))] disallowed_state) \<and>
   SeSinglePrivilegeCheck failing_env (RequestorMode (sample_irp KernelMode (IOCTL_OTHER 0))) \<and>
   \<not> g_HandleInUse disallowed_state \<and>
   g_AllowIOCTLFromUsermode
     (snd (snd (DrvCreate failing_env disallowed_state (sample_irp KernelMode (IOCTL_OTHER 0)))))"
proof -
  have a: "g_AllowIOCTLFromUsermode allowed_state" by (simp add: sample_defs)
  have c: "IoControlCode (sample_irp UserMode IOCTL_RETURN_IRP_PENDING_PACKETS_AND_DISALLOW_IOCTL) =
             IOCTL_RETURN_IRP_PENDING_PACKETS_AND_DISALLOW_IOCTL"
    by (simp add: sample_defs)
  have d: "\<not> g_AllowIOCTLFromUsermode disallowed_state" "\<not> g_HandleInUse disallowed_state"
    by (simp_all add: disallowed_state_eq)
  have p: "SeSinglePrivilegeCheck failing_env (RequestorMode (sample_irp KernelMode (IOCTL_OTHER 0)))"
    by (simp add: sample_defs)
  have r: "\<forall>r \<in> set [(sample_env, IRP_MJ_DEVICE_CONTROL, sample_irp UserMode IOCTL_TERMINATE_VMX),
             (sample_env, IRP_MJ_READ, sample_irp UserMode (IOCTL_OTHER 0))].
             fst (snd r) \<noteq> IRP_MJ_CREATE"
    by (simp add: mj_defs)
  have m: "IRP_MJ_CLOSE \<noteq> IRP_MJ_CREATE" by (simp add: mj_defs)
  note th = disallowed_ioctl_is_no_op
     [of allowed_state "sample_irp UserMode IOCTL_RETURN_IRP_PENDING_PACKETS_AND_DISALLOW_IOCTL"
         sample_env disallowed_state sample_env "sample_irp UserMode IOCTL_TERMINATE_VMX"
         IRP_MJ_CLOSE sample_env "sample_irp UserMode (IOCTL_OTHER 0)"
         "[(sample_env, IRP_MJ_DEVICE_CONTROL, sample_irp UserMode IOCTL_TERMINATE_VMX),
           (sample_env, IRP_MJ_READ, sample_irp UserMode (IOCTL_OTHER 0))]"
         failing_env "sample_irp KernelMode (IOCTL_OTHER 0)"]
  show ?thesis using th a c d p r m by simp
qed

text \<open>
  C10. Starting with \<open>g_HandleInUse\<close> false: a handler leaves it true only if it is
  \<open>DrvCreate\<close> for a privileged requestor, returns \<open>STATUS_SUCCESS\<close>, and both
  \<open>HvVmxInitialize\<close> and \<open>DebuggerInitialize\<close> returned true on what \<open>DrvCreate\<close> handed
  them. For a privileged requestor, \<open>DrvCreate\<close> sets \<open>g_HandleInUse\<close> and returns
  \<open>STATUS_SUCCESS\<close> exactly when both return true; when either returns false it
  returns \<open>STATUS_UNSUCCESSFUL\<close> with \<open>g_HandleInUse\<close> still false (and does not call
  \<open>DebuggerInitialize\<close> when \<open>HvVmxInitialize\<close> has failed); and
  \<open>g_AllowIOCTLFromUsermode\<close> is true in every case.
\<close>

theorem handle_in_use_only_after_both_succeed:
  assumes "\<not> g_HandleInUse s"
  shows
  "(g_HandleInUse (snd (snd (MajorFunction mj env s Irp))) \<longrightarrow>
      mj = IRP_MJ_CREATE \<and> fst (MajorFunction mj env s Irp) = STATUS_SUCCESS \<and>
      SeSinglePrivilegeCheck env (RequestorMode Irp) \<and>
      fst (HvVmxInitialize env (world_at_HvVmxInitialize env s)) \<and>
      fst (DebuggerInitialize env (world_at_DebuggerInitialize env s)) \<and>
      (\<exists>gs. E_HvVmxInitialize gs True \<in>
               set (new_events s (snd (snd (MajorFunction mj env s Irp))))) \<and>
      E_DebuggerInitialize True \<in> set (new_events s (snd (snd (MajorFunction mj env s Irp))))) \<and>
   (SeSinglePrivilegeCheck env (RequestorMode Irp) \<longrightarrow>
      new_events s (snd (snd (DrvCreate env s Irp))) =
        create_events (KeQueryActiveProcessorCount env)
          (size_in_bytes (SIZEOF_VIRTUAL_MACHINE_STATE env) (KeQueryActiveProcessorCount env))
          (fst (world_at_HvVmxInitialize env s))
          (fst (HvVmxInitialize env (world_at_HvVmxInitialize env s)))
          (fst (DebuggerInitialize env (world_at_DebuggerInitialize env s))) \<and>
      g_AllowIOCTLFromUsermode (snd (snd (DrvCreate env s Irp))) \<and>
      (g_HandleInUse (snd (snd (DrvCreate env s Irp))) \<longleftrightarrow>
         fst (HvVmxInitialize env (world_at_HvVmxInitialize env s)) \<and>
         fst (DebuggerInitialize env (world_at_DebuggerInitialize env s))) \<and>
      fst (DrvCreate env s Irp) =
        (if fst (HvVmxInitialize env (world_at_HvVmxInitialize env s)) \<and>
            fst (DebuggerInitialize env (world_at_DebuggerInitialize env s))
         then STATUS_SUCCESS else STATUS_UNSUCCESSFUL) \<and>
      (\<not> fst (HvVmxInitialize env (world_at_HvVmxInitialize env s)) \<or>
       \<not> fst (DebuggerInitialize env (world_at_DebuggerInitialize env s)) \<longrightarrow>
         fst (DrvCreate env s Irp) = STATUS_UNSUCCESSFUL \<and>
         \<not> g_HandleInUse (snd (snd (DrvCreate env s Irp))) \<and>
         g_AllowIOCTLFromUsermode (snd (snd (DrvCreate env s Irp)))) \<and>
      (g_HandleInUse (snd (snd (DrvCreate env s Irp))) \<longleftrightarrow>
         (\<exists>gs. E_HvVmxInitialize gs True \<in> set (new_events s (snd (snd (DrvCreate env s Irp))))) \<and>
         E_DebuggerInitialize True \<in> set (new_events s (snd (snd (DrvCreate env s Irp))))) \<and>
      (g_HandleInUse (snd (snd (DrvCreate env s Irp))) \<longleftrightarrow>
         fst (DrvCreate env s Irp) = STATUS_SUCCESS) \<and>
      ((\<exists>gs. E_HvVmxInitialize gs False \<in> set (new_events s (snd (snd (DrvCreate env s Irp))))) \<or>
       E_DebuggerInitialize False \<in> set (new_events s (snd (snd (DrvCreate env s Irp)))) \<longrightarrow>
         fst (DrvCreate env s Irp) = STATUS_UNSUCCESSFUL \<and>
         \<not> g_HandleInUse (snd (snd (DrvCreate env s Irp))) \<and>
         g_AllowIOCTLFromUsermode (snd (snd (DrvCreate env s Irp)))))"
proof -
  define hv where "hv = fst (HvVmxInitialize env (world_at_HvVmxInitialize env s))"
  define dbg where "dbg = fst (DebuggerInitialize env (world_at_DebuggerInitialize env s))"
  define ev where "ev = new_events s (snd (snd (DrvCreate env s Irp)))"
  define cev where
    "cev = create_events (KeQueryActiveProcessorCount env)
          (size_in_bytes (SIZEOF_VIRTUAL_MACHINE_STATE env) (KeQueryActiveProcessorCount env))
          (fst (world_at_HvVmxInitialize env s)) hv dbg"
  have admitted:
    "ev = cev \<and>
     g_AllowIOCTLFromUsermode (snd (snd (DrvCreate env s Irp))) \<and>
     (g_HandleInUse (snd (snd (DrvCreate env s Irp))) \<longleftrightarrow> hv \<and> dbg) \<and>
     fst (DrvCreate env s Irp) = (if hv \<and> dbg then STATUS_SUCCESS else STATUS_UNSUCCESSFUL) \<and>
     (\<not> hv \<or> \<not> dbg \<longrightarrow>
        fst (DrvCreate env s Irp) = STATUS_UNSUCCESSFUL \<and>
        \<not> g_HandleInUse (snd (snd (DrvCreate env s Irp))) \<and>
        g_AllowIOCTLFromUsermode (snd (snd (DrvCreate env s Irp)))) \<and>
     (g_HandleInUse (snd (snd (DrvCreate env s Irp))) \<longleftrightarrow>
        (\<exists>gs. E_HvVmxInitialize gs True \<in> set ev) \<and> E_DebuggerInitialize True \<in> set ev) \<and>
     (g_HandleInUse (snd (snd (DrvCreate env s Irp))) \<longleftrightarrow>
        fst (DrvCreate env s Irp) = STATUS_SUCCESS) \<and>
     ((\<exists>gs. E_HvVmxInitialize gs False \<in> set ev) \<or> E_DebuggerInitialize False \<in> set ev \<longrightarrow>
        fst (DrvCreate env s Irp) = STATUS_UNSUCCESSFUL \<and>
        \<not> g_HandleInUse (snd (snd (DrvCreate env s Irp))) \<and>
        g_AllowIOCTLFromUsermode (snd (snd (DrvCreate env s Irp))))"
    if p: "SeSinglePrivilegeCheck env (RequestorMode Irp)"
  proof -
    have t: "trace (snd (snd (DrvCreate env s Irp))) = trace s @ cev" and
      st: "fst (DrvCreate env s Irp) = (if hv \<and> dbg then STATUS_SUCCESS else STATUS_UNSUCCESSFUL)" and
      h: "g_HandleInUse (snd (snd (DrvCreate env s Irp))) = (hv \<and> dbg)" and
      a: "g_AllowIOCTLFromUsermode (snd (snd (DrvCreate env s Irp)))"
      using DrvCreate_admitted_values [OF p assms] unfolding cev_def hv_def dbg_def by blast+
    have e: "ev = cev" unfolding ev_def using t by simp
    show ?thesis
      unfolding e h st
      using a
      by (auto simp: cev_def create_events_HvVmxInitialize create_events_DebuggerInitialize
            status_defs)
  qed
  have only: "mj = IRP_MJ_CREATE \<and> SeSinglePrivilegeCheck env (RequestorMode Irp)"
    if g: "g_HandleInUse (snd (snd (MajorFunction mj env s Irp)))"
  proof -
    have mj: "mj = IRP_MJ_CREATE" using assms g by (rule MajorFunction_sets_handle)
    have "SeSinglePrivilegeCheck env (RequestorMode Irp)"
    proof (rule ccontr)
      assume "\<not> SeSinglePrivilegeCheck env (RequestorMode Irp)"
      then have "\<not> SeSinglePrivilegeCheck env (RequestorMode Irp) \<or> g_HandleInUse s" by simp
      from DrvCreate_rejected [OF this] g mj assms show False
        by (simp add: MajorFunction_def mj_defs)
    qed
    with mj show ?thesis by simp
  qed
  have create: "MajorFunction IRP_MJ_CREATE env s Irp = DrvCreate env s Irp"
    by (simp add: MajorFunction_def mj_defs)
  have first:
    "mj = IRP_MJ_CREATE \<and> fst (MajorFunction mj env s Irp) = STATUS_SUCCESS \<and>
      SeSinglePrivilegeCheck env (RequestorMode Irp) \<and> hv \<and> dbg \<and>
      (\<exists>gs. E_HvVmxInitialize gs True \<in>
               set (new_events s (snd (snd (MajorFunction mj env s Irp))))) \<and>
      E_DebuggerInitialize True \<in> set (new_events s (snd (snd (MajorFunction mj env s Irp))))"
    if g: "g_HandleInUse (snd (snd (MajorFunction mj env s Irp)))"
  proof -
    from only [OF g] have mj: "mj = IRP_MJ_CREATE" and
      p: "SeSinglePrivilegeCheck env (RequestorMode Irp)" by simp_all
    have g': "g_HandleInUse (snd (snd (DrvCreate env s Irp)))"
      using g unfolding mj create .
    show ?thesis
      unfolding mj create ev_def [symmetric]
      using admitted [OF p] g' mj p by (auto split: if_splits)
  qed
  show ?thesis
    unfolding hv_def [symmetric] dbg_def [symmetric] ev_def [symmetric] cev_def [symmetric]
    using admitted first by blast
qed

theorem handle_in_use_witness:
  "\<not> g_HandleInUse sample_state \<and>
   g_HandleInUse
     (snd (snd (MajorFunction IRP_MJ_CREATE sample_env sample_state
                  (sample_irp KernelMode (IOCTL_OTHER 0))))) \<and>
   fst (MajorFunction IRP_MJ_CREATE sample_env sample_state (sample_irp KernelMode (IOCTL_OTHER 0)))
     = STATUS_SUCCESS \<and>
   fst (DebuggerInitialize sample_env (world_at_DebuggerInitialize sample_env sample_state)) \<and>
   SeSinglePrivilegeCheck failing_env (RequestorMode (sample_irp KernelMode (IOCTL_OTHER 0))) \<and>
   \<not> fst (HvVmxInitialize failing_env (world_at_HvVmxInitialize failing_env sample_state)) \<and>
   fst (DrvCreate failing_env sample_state (sample_irp KernelMode (IOCTL_OTHER 0)))
     = STATUS_UNSUCCESSFUL \<and>
   \<not> g_HandleInUse
       (snd (snd (DrvCreate failing_env sample_state (sample_irp KernelMode (IOCTL_OTHER 0))))) \<and>
   g_AllowIOCTLFromUsermode
     (snd (snd (DrvCreate failing_env sample_state (sample_irp KernelMode (IOCTL_OTHER 0))))) \<and>
   SeSinglePrivilegeCheck debugger_failing_env
     (RequestorMode (sample_irp KernelMode (IOCTL_OTHER 0))) \<and>
   fst (HvVmxInitialize debugger_failing_env
          (world_at_HvVmxInitialize debugger_failing_env sample_state)) \<and>
   \<not> fst (DebuggerInitialize debugger_failing_env
            (world_at_DebuggerInitialize debugger_failing_env sample_state)) \<and>
   fst (DrvCreate debugger_failing_env sample_state (sample_irp KernelMode (IOCTL_OTHER 0)))
     = STATUS_UNSUCCESSFUL \<and>
   \<not> g_HandleInUse
       (snd (snd (DrvCreate debugger_failing_env sample_state
                    (sample_irp KernelMode (IOCTL_OTHER 0))))) \<and>
   g_AllowIOCTLFromUsermode
     (snd (snd (DrvCreate debugger_failing_env sample_state
                  (sample_irp KernelMode (IOCTL_OTHER 0)))))"
proof -
  have f: "\<not> g_HandleInUse sample_state" by (simp add: sample_defs)
  have u: "g_HandleInUse
     (snd (snd (MajorFunction IRP_MJ_CREATE sample_env sample_state
                  (sample_irp KernelMode (IOCTL_OTHER 0)))))"
    by (simp add: MajorFunction_def mj_defs sample_create)
  have p: "SeSinglePrivilegeCheck failing_env (RequestorMode (sample_irp KernelMode (IOCTL_OTHER 0)))"
    "SeSinglePrivilegeCheck debugger_failing_env
       (RequestorMode (sample_irp KernelMode (IOCTL_OTHER 0)))"
    by (simp_all add: sample_defs)
  have h: "\<not> fst (HvVmxInitialize failing_env (world_at_HvVmxInitialize failing_env sample_state))"
    "fst (HvVmxInitialize debugger_failing_env
            (world_at_HvVmxInitialize debugger_failing_env sample_state))"
    "\<not> fst (DebuggerInitialize debugger_failing_env
              (world_at_DebuggerInitialize debugger_failing_env sample_state))"
    by (simp_all add: sample_defs)
  note ok = handle_in_use_only_after_both_succeed
              [OF f, of IRP_MJ_CREATE sample_env "sample_irp KernelMode (IOCTL_OTHER 0)"]
  note hvbad = handle_in_use_only_after_both_succeed
              [OF f, of IRP_MJ_CREATE failing_env "sample_irp KernelMode (IOCTL_OTHER 0)"]
  note dbgbad = handle_in_use_only_after_both_succeed
              [OF f, of IRP_MJ_CREATE debugger_failing_env "sample_irp KernelMode (IOCTL_OTHER 0)"]
  have a: "fst (MajorFunction IRP_MJ_CREATE sample_env sample_state
                  (sample_irp KernelMode (IOCTL_OTHER 0))) = STATUS_SUCCESS"
    "fst (DebuggerInitialize sample_env (world_at_DebuggerInitialize sample_env sample_state))"
    using ok u by blast+
  have b: "fst (DrvCreate failing_env sample_state (sample_irp KernelMode (IOCTL_OTHER 0)))
             = STATUS_UNSUCCESSFUL"
    "\<not> g_HandleInUse
       (snd (snd (DrvCreate failing_env sample_state (sample_irp KernelMode (IOCTL_OTHER 0)))))"
    "g_AllowIOCTLFromUsermode
     (snd (snd (DrvCreate failing_env sample_state (sample_irp KernelMode (IOCTL_OTHER 0)))))"
    using hvbad p(1) h(1) by blast+
  have c: "fst (DrvCreate debugger_failing_env sample_state (sample_irp KernelMode (IOCTL_OTHER 0)))
             = STATUS_UNSUCCESSFUL"
    "\<not> g_HandleInUse
       (snd (snd (DrvCreate debugger_failing_env sample_state
                    (sample_irp KernelMode (IOCTL_OTHER 0)))))"
    "g_AllowIOCTLFromUsermode
     (snd (snd (DrvCreate debugger_failing_env sample_state
                  (sample_irp KernelMode (IOCTL_OTHER 0)))))"
    using dbgbad p(2) h(3) by blast+
  show ?thesis using f u p h a b c by blast
qed

section \<open>Properties of the breakpoint engine\<close>

text \<open>
  C5. \<open>ClearBreakpoint\<close> on an address with no active breakpoint returns
  \<open>BpNotFound\<close> and leaves the engine, guest memory included, as it was. After any
  \<open>ClearBreakpoint\<close> no breakpoint is active at the address, so clearing again returns
  \<open>BpNotFound\<close> and changes nothing.
\<close>

theorem ClearBreakpoint_not_found:
  "(\<not> bp_active e a \<longrightarrow>
      ClearBreakpoint a e = (BpNotFound, e) \<and>
      guest_memory (snd (ClearBreakpoint a e)) = guest_memory e) \<and>
   \<not> bp_active (snd (ClearBreakpoint a e)) a \<and>
   ClearBreakpoint a (snd (ClearBreakpoint a e)) = (BpNotFound, snd (ClearBreakpoint a e))"
  by (auto simp: ClearBreakpoint_def bp_active_def split: option.splits)

theorem ClearBreakpoint_witness:
  "\<not> bp_active sample_engine 0x1000 \<and>
   ClearBreakpoint 0x1000 sample_engine = (BpNotFound, sample_engine) \<and>
   bp_active (snd (SetSoftwareBreakpoint 1 0x1000 sample_engine)) 0x1000 \<and>
   fst (ClearBreakpoint 0x1000 (snd (SetSoftwareBreakpoint 1 0x1000 sample_engine))) = BpDone \<and>
   fst (ClearBreakpoint 0x1000
          (snd (ClearBreakpoint 0x1000 (snd (SetSoftwareBreakpoint 1 0x1000 sample_engine)))))
     = BpNotFound"
  using ClearBreakpoint_not_found [of sample_engine "0x1000"]
        ClearBreakpoint_not_found [of "snd (SetSoftwareBreakpoint 1 0x1000 sample_engine)" "0x1000"]
  by (simp add: sample_engine_def bp_active_def SetSoftwareBreakpoint_def ClearBreakpoint_def)

section \<open>Properties of the EPT manager\<close>

lemma entry_rights_set [simp]: "entry_rights (set_entry_rights h gpa r) gpa = r"
  by (simp add: entry_rights_def set_entry_rights_def)

lemma entry_rights_saved_update [simp]: "entry_rights (h\<lparr>saved := m\<rparr>) gpa = entry_rights h gpa"
  by (simp add: entry_rights_def)

lemma saved_set [simp]: "saved (set_entry_rights h gpa r) = saved h"
  by (simp add: set_entry_rights_def)

lemma hook_inv_apply: "hook_inv r0 gpa h \<Longrightarrow> hook_inv r0 gpa (ept_apply gpa c h)"
  by (cases c) (auto simp: hook_inv_def HookPage_def UnhookPage_def Let_def split: option.splits)

lemma hook_inv_apply_all: "hook_inv r0 gpa h \<Longrightarrow> hook_inv r0 gpa (ept_apply_all gpa cs h)"
  by (induction cs arbitrary: h) (simp_all add: hook_inv_apply)

lemma hook_inv_unhook: "hook_inv r0 gpa h \<Longrightarrow> entry_rights (UnhookPage gpa h) gpa = r0"
  by (auto simp: hook_inv_def UnhookPage_def split: option.splits)

text \<open>
  C6. On a page that is not hooked, after any sequence of \<open>HookPage\<close> and
  \<open>UnhookPage\<close> calls on one address, an \<open>UnhookPage\<close> leaves the entry with the
  rights it had before the first call and the page unhooked. In between, an unhooked
  page has these rights, and the saved state of a hooked page holds them, which is
  where \<open>UnhookPage\<close> takes them from.
\<close>

theorem unhook_restores_rights:
  assumes "saved h (page_number gpa) = None"
  shows "entry_rights (UnhookPage gpa (ept_apply_all gpa cs h)) gpa = entry_rights h gpa \<and>
         saved (UnhookPage gpa (ept_apply_all gpa cs h)) (page_number gpa) = None \<and>
         (saved (ept_apply_all gpa cs h) (page_number gpa) = None \<longrightarrow>
            entry_rights (ept_apply_all gpa cs h) gpa = entry_rights h gpa) \<and>
         (\<forall>r. saved (ept_apply_all gpa cs h) (page_number gpa) = Some r \<longrightarrow> r = entry_rights h gpa)"
proof -
  have "hook_inv (entry_rights h gpa) gpa h"
    using assms by (simp add: hook_inv_def)
  then have inv: "hook_inv (entry_rights h gpa) gpa (ept_apply_all gpa cs h)"
    by (rule hook_inv_apply_all)
  have "saved (UnhookPage gpa h') (page_number gpa) = None" for h'
    by (simp add: UnhookPage_def split: option.splits)
  moreover have "\<forall>r. saved (ept_apply_all gpa cs h) (page_number gpa) = Some r \<longrightarrow> r = entry_rights h gpa"
    using inv by (auto simp: hook_inv_def split: option.splits)
  moreover have "saved (ept_apply_all gpa cs h) (page_number gpa) = None \<longrightarrow>
            entry_rights (ept_apply_all gpa cs h) gpa = entry_rights h gpa"
    using inv by (auto simp: hook_inv_def split: option.splits)
  ultimately show ?thesis using hook_inv_unhook [OF inv] by simp
qed

theorem unhook_restores_rights_witness:
  "saved identity_map (page_number 0x201000) = None \<and>
   entry_rights (ept_apply_all 0x201000 [Hook WriteTrap, Hook ExecuteTrap] identity_map) 0x201000
     = \<lparr>ReadAccess = True, WriteAccess = False, ExecuteAccess = False\<rparr> \<and>
   entry_rights
     (UnhookPage 0x201000 (ept_apply_all 0x201000 [Hook WriteTrap, Hook ExecuteTrap] identity_map))
     0x201000 = full_access"
  using unhook_restores_rights [of identity_map "0x201000" "[Hook WriteTrap, Hook ExecuteTrap]"]
  by (simp add: identity_map_def full_access_def HookPage_def Let_def entry_rights_def
        set_entry_rights_def split_pde_def trap_rights_def page_number_def)

section \<open>Properties of the hook registry\<close>

lemma conflicts_key: "conflicts reg c sc \<longleftrightarrow> (c, sc) \<in> entry_key ` set (entries reg)"
  by (auto simp: conflicts_def entry_key_def)

lemma Register_keys:
  "entry_key ` set (entries (snd (Register c a sc reg))) = insert (c, sc) (entry_key ` set (entries reg))"
  by (auto simp: Register_def conflicts_key entry_key_def)

lemma Register_distinct:
  "distinct (map entry_key (entries reg)) \<Longrightarrow>
   distinct (map entry_key (entries (snd (Register c a sc reg))))"
  by (auto simp: Register_def conflicts_key entry_key_def)

lemma Register_all_keys:
  "entry_key ` set (entries (Register_all rs reg)) =
     entry_key ` set (entries reg) \<union> (\<lambda>(c, a, sc). (c, sc)) ` set rs"
proof (induction rs arbitrary: reg)
  case Nil
  show ?case by simp
next
  case (Cons r rs)
  obtain c a sc where r: "r = (c, a, sc)" by (cases r) auto
  show ?case by (simp add: r Cons.IH Register_keys)
qed

lemma Register_all_distinct:
  "distinct (map entry_key (entries reg)) \<Longrightarrow>
   distinct (map entry_key (entries (Register_all rs reg)))"
proof (induction rs arbitrary: reg)
  case Nil
  then show ?case by simp
next
  case (Cons r rs)
  obtain c a sc where r: "r = (c, a, sc)" by (cases r) auto
  show ?case using Cons.prems by (simp add: r Cons.IH Register_distinct)
qed

lemma distinct_filter_key:
  "distinct (map f xs) \<Longrightarrow> length (filter (\<lambda>x. f x = k) xs) = (if k \<in> f ` set xs then 1 else 0)"
  by (induction xs) (auto simp: image_iff)

lemma entries_for_key: "entries_for reg c sc = filter (\<lambda>e. entry_key e = (c, sc)) (entries reg)"
  by (simp add: entries_for_def entry_key_def)

text \<open>
  C7. \<open>Register\<close> with a condition and scope that an entry of the registry already has
  is rejected and returns the registry unchanged. After any sequence of \<open>Register\<close>
  calls on the empty registry, a pair of condition and scope has exactly one entry if
  the sequence asked for it, and none otherwise.
\<close>

theorem Register_rejects_conflicts:
  "(conflicts reg c sc \<longrightarrow> Register c a sc reg = (Inl ConflictingRegistration, reg)) \<and>
   length (entries_for (Register_all rs empty_registry) c' sc') =
     (if (c', sc') \<in> (\<lambda>(c, a, sc). (c, sc)) ` set rs then 1 else 0)"
proof -
  have "distinct (map entry_key (entries empty_registry))"
    by (simp add: empty_registry_def)
  then have "distinct (map entry_key (entries (Register_all rs empty_registry)))"
    by (rule Register_all_distinct)
  then have "length (entries_for (Register_all rs empty_registry) c' sc') =
     (if (c', sc') \<in> entry_key ` set (entries (Register_all rs empty_registry)) then 1 else 0)"
    unfolding entries_for_key by (rule distinct_filter_key)
  moreover have "entry_key ` set (entries (Register_all rs empty_registry)) =
                   (\<lambda>(c, a, sc). (c, sc)) ` set rs"
    by (simp add: Register_all_keys empty_registry_def)
  ultimately show ?thesis by (simp add: Register_def)
qed

theorem Register_rejects_conflicts_witness:
  "conflicts (Register_all [(sample_condition, LogAction, GlobalScope)] empty_registry)
     sample_condition GlobalScope \<and>
   Register sample_condition BreakAction GlobalScope
     (Register_all [(sample_condition, LogAction, GlobalScope)] empty_registry) =
     (Inl ConflictingRegistration,
      Register_all [(sample_condition, LogAction, GlobalScope)] empty_registry) \<and>
   length (entries_for
             (Register_all
                [(sample_condition, LogAction, GlobalScope),
                 (sample_condition, BreakAction, GlobalScope),
                 (sample_condition, LogAction, ProcessorScope 0)] empty_registry)
             sample_condition GlobalScope) = 1"
proof -
  have c: "conflicts (Register_all [(sample_condition, LogAction, GlobalScope)] empty_registry)
             sample_condition GlobalScope"
    by (simp add: Register_def conflicts_def empty_registry_def)
  note th = Register_rejects_conflicts
    [of "Register_all [(sample_condition, LogAction, GlobalScope)] empty_registry"
        sample_condition GlobalScope BreakAction
        "[(sample_condition, LogAction, GlobalScope),
          (sample_condition, BreakAction, GlobalScope),
          (sample_condition, LogAction, ProcessorScope 0)]"
        sample_condition GlobalScope]
  have r: "Register sample_condition BreakAction GlobalScope
     (Register_all [(sample_condition, LogAction, GlobalScope)] empty_registry) =
     (Inl ConflictingRegistration,
      Register_all [(sample_condition, LogAction, GlobalScope)] empty_registry)"
    using th c by blast
  have n: "length (entries_for
             (Register_all
                [(sample_condition, LogAction, GlobalScope),
                 (sample_condition, BreakAction, GlobalScope),
                 (sample_condition, LogAction, ProcessorScope 0)] empty_registry)
             sample_condition GlobalScope) = 1"
    using th [THEN conjunct2] by simp
  show ?thesis using c r n by blast
qed

end
